theory Spec2Isabelle
  imports Main
begin

section \<open>The download worker of telegram-vreddit-bot\<close>

text \<open>
  A shallow embedding of \<^verbatim>\<open>src/cancer/command/download.py\<close> (the download pipeline and
  the start-up code) and of \<^verbatim>\<open>src/cancer/mqtt.py\<close> (the pub/sub module). Python exceptions
  are values of \<open>fault\<close>; a computation that may raise returns \<open>fault + 'a\<close> with
  \<open>Inl\<close> for the raised exception. Calls of \<^verbatim>\<open>_LOG\<close> are left out: they do not
  change the control flow.
\<close>

subsection \<open>Exceptions and values\<close>

text \<open>
  \<open>ValueError\<close> stands for the Python class with its subclasses (an
  \<^verbatim>\<open>except ValueError\<close> clause catches all of them); \<open>OtherError\<close> is any exception
  class that is none of the named ones.
\<close>

datatype fault =
    ValueError string
  | RuntimeError string
  | KeyError string
  | TypeError string
  | OtherError string

text \<open>
  The values a Telegram API answer is made of. \<^verbatim>\<open>telegram.upload_video\<close> returns the
  answer's message object; the pipeline reads \<^verbatim>\<open>message["video"]["file_id"]\<close> from it.
\<close>

datatype json = JStr string | JInt int | JObj "(string \<times> json) list"

text \<open>Subscripting with a string key: a missing key raises KeyError, a value that is
  no dict raises TypeError.\<close>

fun getitem :: "json \<Rightarrow> string \<Rightarrow> fault + json" where
  "getitem (JObj kvs) k = (case map_of kvs k of None \<Rightarrow> Inl (KeyError k) | Some v \<Rightarrow> Inr v)"
| "getitem (JStr s) k = Inl (TypeError ''string indices must be integers'')"
| "getitem (JInt i) k = Inl (TypeError ''int object is not subscriptable'')"

text \<open>\<^verbatim>\<open>Subscriber.Result\<close> of \<^verbatim>\<open>cancer.port.subscriber\<close>: the closed set of outcomes a
  handler returns.\<close>

datatype result = Ack | Nack | Requeue

text \<open>\<^verbatim>\<open>DownloadMessage\<close>: the fields \<^verbatim>\<open>_handle_payload\<close> reads.\<close>

record download_message =
  chat_id :: int
  message_id :: int
  urls :: "string list"

subsection \<open>Paths\<close>

type_synonym path = string

text \<open>
  \<^verbatim>\<open>os.path.join(a, b)\<close> on POSIX: an absolute \<open>b\<close> replaces \<open>a\<close>; a separator is
  added unless \<open>a\<close> is empty or ends with one.
\<close>

definition os_path_join :: "path \<Rightarrow> string \<Rightarrow> path" where
  "os_path_join a b =
     (if b \<noteq> [] \<and> hd b = CHR ''/'' then b
      else if a = [] \<or> last a = CHR ''/'' then a @ b
      else a @ ''/'' @ b)"

text \<open>\<^verbatim>\<open>str.rfind(c)\<close> for a single character: the highest index of \<open>c\<close>, or \<open>-1\<close>.\<close>

fun rfind_from :: "string \<Rightarrow> char \<Rightarrow> nat \<Rightarrow> int \<Rightarrow> int" where
  "rfind_from [] c i r = r"
| "rfind_from (x # xs) c i r = rfind_from xs c (Suc i) (if x = c then int i else r)"

definition rfind :: "string \<Rightarrow> char \<Rightarrow> int" where
  "rfind s c = rfind_from s c 0 (-1)"

text \<open>
  \<^verbatim>\<open>os.path.splitext(p)\<close> on POSIX (\<^verbatim>\<open>genericpath._splitext\<close> with separator \<open>/\<close> and
  extension separator \<open>.\<close>): the extension starts at the last dot, if that dot comes
  after the last separator and the file name does not consist of leading dots only up to
  it. The loop that skips the leading dots returns at the first character that is no dot.
\<close>

fun skip_leading_dots :: "string \<Rightarrow> bool" where
  "skip_leading_dots [] = False"
| "skip_leading_dots (c # cs) = (if c \<noteq> CHR ''.'' then True else skip_leading_dots cs)"

definition splitext :: "path \<Rightarrow> string \<times> string" where
  "splitext p =
     (let sepIndex = rfind p CHR ''/'';
          dotIndex = rfind p CHR ''.''
      in if dotIndex > sepIndex \<and>
            skip_leading_dots (drop (nat (sepIndex + 1)) (take (nat dotIndex) p))
         then (take (nat dotIndex) p, drop (nat dotIndex) p)
         else (p, []))"

text \<open>The paths of the tree rooted at a directory: the directory and what lies below.\<close>

definition below_dir :: "path \<Rightarrow> path \<Rightarrow> bool" where
  "below_dir d p = (p = d \<or> take (Suc (length d)) p = d @ ''/'')"

text \<open>\<^verbatim>\<open>os.listdir(d)\<close>: the names of the entries directly in \<open>d\<close>.\<close>

definition child_name :: "path \<Rightarrow> path \<Rightarrow> string list" where
  "child_name d p =
     (let name = drop (Suc (length d)) p
      in if take (Suc (length d)) p = d @ ''/'' \<and> name \<noteq> [] \<and> CHR ''/'' \<notin> set name
         then [name] else [])"

definition os_listdir :: "path \<Rightarrow> path list \<Rightarrow> string list" where
  "os_listdir d files = remdups (concat (map (child_name d) files))"

subsection \<open>The world: collaborators, file system, trace\<close>

text \<open>
  Every call that leaves the program is recorded with its arguments and its outcome, in
  the order of the calls. An external process (the downloader, ffmpeg) also reports the
  paths it wrote.
\<close>

datatype event =
    Mkdtemp path "fault + string"
  | Mkdir path "fault option"
  | YtdlDownload string string "fault + int" "path list"
  | Ffmpeg path path "fault + int" "path list"
  | UploadVideo string path "fault + json"
  | SendVideoGroup int int "json list" "fault option"
  | Rmtree path

record world =
  fs :: "path list"
  trace :: "event list"

text \<open>
  What the collaborators answer. Each answer may depend on the arguments of the call and
  on the number of calls made before it, so that the same call can be answered
  differently at different times.
  \<^item> \<open>environ\<close>: the process environment read when the module is imported;
  \<^item> \<open>mkdtemp\<close>: the name \<^verbatim>\<open>TemporaryDirectory(dir=d)\<close> picks for the directory it creates
    in \<open>d\<close>, or the exception of the creation;
  \<^item> \<open>uuid4\<close>: \<^verbatim>\<open>str(uuid.uuid4())\<close>;
  \<^item> \<open>mkdir\<close>: whether \<^verbatim>\<open>os.mkdir\<close> raises;
  \<^item> \<open>ytdl\<close>: \<^verbatim>\<open>YoutubeDL(params={"outtmpl": t}).download([url])\<close>, called with \<open>url\<close> and
    \<open>t\<close>: the return code or the exception, and the paths written;
  \<^item> \<open>ffmpeg\<close>: \<^verbatim>\<open>subprocess.Popen(['ffmpeg', '-i', i, o]).wait()\<close>: the exit status or the
    exception, and the paths written;
  \<^item> \<open>upload_video\<close>: \<^verbatim>\<open>telegram.upload_video(chat, path)\<close>;
  \<^item> \<open>send_video_group\<close>: \<^verbatim>\<open>telegram.send_video_group(chat_id, reply_to_message_id, videos)\<close>.
\<close>

record env =
  environ :: "string \<Rightarrow> string option"
  mkdtemp :: "nat \<Rightarrow> path \<Rightarrow> fault + string"
  uuid4 :: "nat \<Rightarrow> string"
  mkdir :: "nat \<Rightarrow> path \<Rightarrow> fault option"
  ytdl :: "nat \<Rightarrow> string \<Rightarrow> string \<Rightarrow> (fault + int) \<times> path list"
  ffmpeg :: "nat \<Rightarrow> path \<Rightarrow> path \<Rightarrow> (fault + int) \<times> path list"
  upload_video :: "nat \<Rightarrow> string \<Rightarrow> path \<Rightarrow> fault + json"
  send_video_group :: "nat \<Rightarrow> int \<Rightarrow> int \<Rightarrow> json list \<Rightarrow> fault option"

text \<open>\<^verbatim>\<open>os.getenv(name, default)\<close>.\<close>

definition getenv :: "(string \<Rightarrow> string option) \<Rightarrow> string \<Rightarrow> string \<Rightarrow> string" where
  "getenv e name dflt = (case e name of None \<Rightarrow> dflt | Some v \<Rightarrow> v)"

definition STORAGE_DIR :: "env \<Rightarrow> string" where
  "STORAGE_DIR env = getenv (environ env) ''STORAGE_DIR'' ''downloads''"

definition UPLOAD_CHAT :: "env \<Rightarrow> string" where
  "UPLOAD_CHAT env = getenv (environ env) ''UPLOAD_CHAT_ID'' ''1259947317''"

text \<open>The number of calls made so far: the index of the next call.\<close>

definition now :: "world \<Rightarrow> nat" where
  "now w = length (trace w)"

definition record_event :: "event \<Rightarrow> world \<Rightarrow> world" where
  "record_event ev w = w\<lparr>trace := trace w @ [ev]\<rparr>"

definition write_paths :: "path list \<Rightarrow> world \<Rightarrow> world" where
  "write_paths ps w = w\<lparr>fs := fs w @ ps\<rparr>"

definition os_mkdir :: "env \<Rightarrow> path \<Rightarrow> world \<Rightarrow> (fault + unit) \<times> world" where
  "os_mkdir env p w =
     (let out = mkdir env (now w) p;
          w1 = record_event (Mkdir p out) w
      in case out of
           Some e \<Rightarrow> (Inl e, w1)
         | None \<Rightarrow> (Inr (), write_paths [p] w1))"

text \<open>
  \<^verbatim>\<open>with TemporaryDirectory(dir=d) as folder: body\<close>. Entering creates a directory in
  \<open>d\<close> and binds its path, here \<open>d\<close> joined with the name picked; leaving, by return
  or by exception, removes the directory tree and lets the body's result or exception
  through. The removal itself is taken to succeed.
\<close>

definition temporary_directory_enter :: "env \<Rightarrow> path \<Rightarrow> world \<Rightarrow> (fault + path) \<times> world" where
  "temporary_directory_enter env d w =
     (let out = mkdtemp env (now w) d;
          w1 = record_event (Mkdtemp d out) w
      in case out of
           Inl e \<Rightarrow> (Inl e, w1)
         | Inr name \<Rightarrow> (Inr (os_path_join d name), write_paths [os_path_join d name] w1))"

definition temporary_directory_exit :: "path \<Rightarrow> world \<Rightarrow> world" where
  "temporary_directory_exit folder w =
     record_event (Rmtree folder) (w\<lparr>fs := filter (\<lambda>p. \<not> below_dir folder p) (fs w)\<rparr>)"

subsection \<open>The pipeline of \<^verbatim>\<open>download.py\<close>\<close>

text \<open>
  \<^verbatim>\<open>_download_videos(base_folder, url)\<close>: a fresh sub-directory, the download into it, and
  the files found there; no files when the downloader returns a code other than 0.
\<close>

definition download_videos :: "env \<Rightarrow> path \<Rightarrow> string \<Rightarrow> world \<Rightarrow> (fault + path list) \<times> world" where
  "download_videos env base_folder url w =
     (let cure_id = uuid4 env (now w);
          cure_dir = os_path_join base_folder cure_id
      in case os_mkdir env cure_dir w of
           (Inl e, w1) \<Rightarrow> (Inl e, w1)
         | (Inr _, w1) \<Rightarrow>
             (let outtmpl = cure_dir @ ''/output%(autonumber)d.%(ext)s'';
                  (out, written) = ytdl env (now w1) url outtmpl;
                  w2 = write_paths written (record_event (YtdlDownload url outtmpl out written) w1)
              in case out of
                   Inl e \<Rightarrow> (Inl e, w2)
                 | Inr return_code \<Rightarrow>
                     if return_code \<noteq> 0 then (Inr [], w2)
                     else (Inr (map (os_path_join cure_dir) (os_listdir cure_dir (fs w2))), w2)))"

text \<open>\<^verbatim>\<open>_convert_cure(input_path, output_path)\<close>: ffmpeg, and RuntimeError on a status
  other than 0.\<close>

definition convert_cure :: "env \<Rightarrow> path \<Rightarrow> path \<Rightarrow> world \<Rightarrow> (fault + unit) \<times> world" where
  "convert_cure env input_path output_path w =
     (let (out, written) = ffmpeg env (now w) input_path output_path;
          w1 = write_paths written (record_event (Ffmpeg input_path output_path out written) w)
      in case out of
           Inl e \<Rightarrow> (Inl e, w1)
         | Inr status \<Rightarrow>
             if status \<noteq> 0 then (Inl (RuntimeError ''Could not convert file!''), w1)
             else (Inr (), w1))"

text \<open>\<^verbatim>\<open>_ensure_compatibility(original_path)\<close>.\<close>

definition ensure_compatibility :: "env \<Rightarrow> path \<Rightarrow> world \<Rightarrow> (fault + path) \<times> world" where
  "ensure_compatibility env original_path w =
     (let (base, ext) = splitext original_path
      in if ext = ''.mp4'' then (Inr original_path, w)
         else
           (let converted_path = base @ ''.mp4''
            in case convert_cure env original_path converted_path w of
                 (Inl e, w1) \<Rightarrow> (Inl e, w1)
               | (Inr _, w1) \<Rightarrow> (Inr converted_path, w1)))"

text \<open>\<^verbatim>\<open>_upload_video(video_file)\<close>.\<close>

definition file_id_of :: "json \<Rightarrow> fault + json" where
  "file_id_of message =
     (case getitem message ''video'' of
        Inl e \<Rightarrow> Inl e
      | Inr video \<Rightarrow> getitem video ''file_id'')"

definition upload_video_file :: "env \<Rightarrow> path \<Rightarrow> world \<Rightarrow> (fault + json) \<times> world" where
  "upload_video_file env video_file w =
     (case ensure_compatibility env video_file w of
        (Inl e, w1) \<Rightarrow> (Inl e, w1)
      | (Inr cure_path, w1) \<Rightarrow>
          (let out = upload_video env (now w1) (UPLOAD_CHAT env) cure_path;
               w2 = record_event (UploadVideo (UPLOAD_CHAT env) cure_path out) w1
           in case out of
                Inl e \<Rightarrow> (Inl e, w2)
              | Inr message \<Rightarrow> (file_id_of message, w2)))"

text \<open>
  The two list comprehensions of \<^verbatim>\<open>_handle_payload\<close>:
  \<^verbatim>\<open>[file for url in payload.urls for file in _download_videos(folder, url)]\<close> and
  \<^verbatim>\<open>[_upload_video(file) for file in files]\<close>. An exception ends the comprehension.
\<close>

fun files_of_urls :: "env \<Rightarrow> path \<Rightarrow> string list \<Rightarrow> world \<Rightarrow> (fault + path list) \<times> world" where
  "files_of_urls env folder [] w = (Inr [], w)"
| "files_of_urls env folder (url # rest) w =
     (case download_videos env folder url w of
        (Inl e, w1) \<Rightarrow> (Inl e, w1)
      | (Inr found, w1) \<Rightarrow>
          (case files_of_urls env folder rest w1 of
             (Inl e, w2) \<Rightarrow> (Inl e, w2)
           | (Inr others, w2) \<Rightarrow> (Inr (found @ others), w2)))"

fun video_ids_of_files :: "env \<Rightarrow> path list \<Rightarrow> world \<Rightarrow> (fault + json list) \<times> world" where
  "video_ids_of_files env [] w = (Inr [], w)"
| "video_ids_of_files env (file # rest) w =
     (case upload_video_file env file w of
        (Inl e, w1) \<Rightarrow> (Inl e, w1)
      | (Inr file_id, w1) \<Rightarrow>
          (case video_ids_of_files env rest w1 of
             (Inl e, w2) \<Rightarrow> (Inl e, w2)
           | (Inr others, w2) \<Rightarrow> (Inr (file_id # others), w2)))"

text \<open>The statements of \<^verbatim>\<open>_handle_payload\<close> after \<open>files\<close> is bound: the uploads, the
  grouped reply, and the return of \<open>Ack\<close>.\<close>

definition upload_and_reply :: "env \<Rightarrow> download_message \<Rightarrow> path list \<Rightarrow> world \<Rightarrow> (fault + result) \<times> world" where
  "upload_and_reply env payload files w =
     (case video_ids_of_files env files w of
        (Inl e, w1) \<Rightarrow> (Inl e, w1)
      | (Inr video_ids, w1) \<Rightarrow>
          (let out = send_video_group env (now w1) (chat_id payload) (message_id payload) video_ids;
               w2 = record_event (SendVideoGroup (chat_id payload) (message_id payload) video_ids out) w1
           in case out of
                Some e \<Rightarrow> (Inl e, w2)
              | None \<Rightarrow> (Inr Ack, w2)))"

text \<open>The body of the \<^verbatim>\<open>with\<close> block.\<close>

definition handle_payload_body :: "env \<Rightarrow> download_message \<Rightarrow> path \<Rightarrow> world \<Rightarrow> (fault + result) \<times> world" where
  "handle_payload_body env payload folder w =
     (case files_of_urls env folder (urls payload) w of
        (Inl e, w1) \<Rightarrow> (Inl e, w1)
      | (Inr files, w1) \<Rightarrow> upload_and_reply env payload files w1)"

text \<open>\<^verbatim>\<open>_handle_payload(payload)\<close>.\<close>

definition handle_payload :: "env \<Rightarrow> download_message \<Rightarrow> world \<Rightarrow> (fault + result) \<times> world" where
  "handle_payload env payload w =
     (case temporary_directory_enter env (STORAGE_DIR env) w of
        (Inl e, w0) \<Rightarrow> (Inl e, w0)
      | (Inr folder, w0) \<Rightarrow>
          (case handle_payload_body env payload folder w0 of
             (r, w1) \<Rightarrow> (r, temporary_directory_exit folder w1)))"

subsection \<open>Reading the trace\<close>

text \<open>The calls of one kind in a list of events, in their order: the URLs of the
  downloads, the uploads (chat, path, outcome), the grouped replies (chat, message, videos,
  outcome), and the uploads that gave a file id (path, file id).\<close>

fun fetch_of :: "event \<Rightarrow> string list" where
  "fetch_of (YtdlDownload url tmpl out written) = [url]"
| "fetch_of _ = []"

fun upload_of :: "event \<Rightarrow> (string \<times> path \<times> (fault + json)) list" where
  "upload_of (UploadVideo chat p out) = [(chat, p, out)]"
| "upload_of _ = []"

fun send_of :: "event \<Rightarrow> (int \<times> int \<times> json list \<times> fault option) list" where
  "send_of (SendVideoGroup chat msg videos out) = [(chat, msg, videos, out)]"
| "send_of _ = []"

fun handle_of :: "event \<Rightarrow> (path \<times> json) list" where
  "handle_of (UploadVideo chat p (Inr message)) =
     (case file_id_of message of Inr file_id \<Rightarrow> [(p, file_id)] | Inl e \<Rightarrow> [])"
| "handle_of _ = []"

definition fetched :: "event list \<Rightarrow> string list" where
  "fetched evs = concat (map fetch_of evs)"

definition uploads :: "event list \<Rightarrow> (string \<times> path \<times> (fault + json)) list" where
  "uploads evs = concat (map upload_of evs)"

definition sends :: "event list \<Rightarrow> (int \<times> int \<times> json list \<times> fault option) list" where
  "sends evs = concat (map send_of evs)"

definition handles :: "event list \<Rightarrow> (path \<times> json) list" where
  "handles evs = concat (map handle_of evs)"

text \<open>A run of ffmpeg that ended with a status other than 0, and the events that follow
  the first such run.\<close>

fun failed_conversion :: "event \<Rightarrow> bool" where
  "failed_conversion (Ffmpeg i out (Inr status) written) = (status \<noteq> 0)"
| "failed_conversion _ = False"

fun after_failure :: "event list \<Rightarrow> event list option" where
  "after_failure [] = None"
| "after_failure (ev # evs) = (if failed_conversion ev then Some evs else after_failure evs)"

text \<open>The events a computation added: those of the later world that the earlier one
  does not have.\<close>

definition events_since :: "world \<Rightarrow> world \<Rightarrow> event list" where
  "events_since w w' = drop (length (trace w)) (trace w')"

text \<open>The path \<^verbatim>\<open>_ensure_compatibility\<close> returns for a file when it returns.\<close>

definition cure_path_of :: "path \<Rightarrow> path" where
  "cure_path_of original_path =
     (let (base, ext) = splitext original_path
      in if ext = ''.mp4'' then original_path else base @ ''.mp4'')"

text \<open>
  The first comprehension of \<^verbatim>\<open>_handle_payload\<close> with the files of each URL kept apart:
  the list that \<^verbatim>\<open>_download_videos\<close> returns for the first URL, for the second, and so on.
  \<open>files_of_urls\<close> is the concatenation of these lists.
\<close>

fun files_per_url :: "env \<Rightarrow> path \<Rightarrow> string list \<Rightarrow> world \<Rightarrow> (fault + path list list) \<times> world" where
  "files_per_url env folder [] w = (Inr [], w)"
| "files_per_url env folder (url # rest) w =
     (case download_videos env folder url w of
        (Inl e, w1) \<Rightarrow> (Inl e, w1)
      | (Inr found, w1) \<Rightarrow>
          (case files_per_url env folder rest w1 of
             (Inl e, w2) \<Rightarrow> (Inl e, w2)
           | (Inr others, w2) \<Rightarrow> (Inr (found # others), w2)))"

subsection \<open>Start-up: \<^verbatim>\<open>run\<close> of \<^verbatim>\<open>download.py\<close>\<close>

text \<open>\<^verbatim>\<open>Topic\<close> of \<^verbatim>\<open>cancer.message\<close>: the two members \<^verbatim>\<open>run\<close> names.\<close>

datatype topic = download | instaDownload

text \<open>
  The two subscribers, each holding the configuration it was constructed from. The
  classes \<^verbatim>\<open>RabbitConfig\<close>, \<^verbatim>\<open>RabbitSubscriber\<close>, \<^verbatim>\<open>MqttConfig\<close> and \<^verbatim>\<open>MqttSubscriber\<close> of
  \<^verbatim>\<open>cancer.adapter\<close> are parameters of \<^verbatim>\<open>run\<close>: what \<^verbatim>\<open>from_env()\<close> returns or raises,
  and whether the subscriber's constructor raises.
\<close>

datatype ('rc, 'mc) subscriber = RabbitSubscriber 'rc | MqttSubscriber 'mc

record ('rc, 'mc) startup =
  telegram_check :: "fault option"
  legacy_topic :: "string option"
  rabbit_config_from_env :: "fault + 'rc"
  rabbit_subscriber_init :: "'rc \<Rightarrow> fault option"
  mqtt_config_from_env :: "fault + 'mc"
  mqtt_subscriber_init :: "'mc \<Rightarrow> fault option"

text \<open>The expression \<^verbatim>\<open>RabbitSubscriber(RabbitConfig.from_env())\<close>.\<close>

definition construct_rabbit :: "('rc, 'mc) startup \<Rightarrow> fault + ('rc, 'mc) subscriber" where
  "construct_rabbit st =
     (case rabbit_config_from_env st of
        Inl e \<Rightarrow> Inl e
      | Inr config \<Rightarrow>
          (case rabbit_subscriber_init st config of
             Some e \<Rightarrow> Inl e
           | None \<Rightarrow> Inr (RabbitSubscriber config)))"

text \<open>The expression \<^verbatim>\<open>MqttSubscriber(MqttConfig.from_env())\<close>.\<close>

definition construct_mqtt :: "('rc, 'mc) startup \<Rightarrow> fault + ('rc, 'mc) subscriber" where
  "construct_mqtt st =
     (case mqtt_config_from_env st of
        Inl e \<Rightarrow> Inl e
      | Inr config \<Rightarrow>
          (case mqtt_subscriber_init st config of
             Some e \<Rightarrow> Inl e
           | None \<Rightarrow> Inr (MqttSubscriber config)))"

text \<open>
  The \<^verbatim>\<open>try\<close> statement of \<^verbatim>\<open>run\<close>: the \<^verbatim>\<open>except ValueError\<close> clause handles a ValueError
  of the \<^verbatim>\<open>try\<close> body and nothing else; an exception of the clause's own body is not
  handled.
\<close>

definition select_subscriber :: "('rc, 'mc) startup \<Rightarrow> fault + ('rc, 'mc) subscriber" where
  "select_subscriber st =
     (case construct_rabbit st of
        Inr subscriber \<Rightarrow> Inr subscriber
      | Inl (ValueError msg) \<Rightarrow> construct_mqtt st
      | Inl e \<Rightarrow> Inl e)"

text \<open>
  \<^verbatim>\<open>run()\<close>. The result is the call \<^verbatim>\<open>subscriber.subscribe(topic, DownloadMessage,
  _handle_payload)\<close> that ends it, given by its subscriber and its topic, or the exception
  raised before. The registration of the signal handler is left out.
\<close>

definition run ::
  "env \<Rightarrow> ('rc, 'mc) startup \<Rightarrow> world \<Rightarrow> (fault + ('rc, 'mc) subscriber \<times> topic) \<times> world" where
  "run env st w =
     (case telegram_check st of
        Some e \<Rightarrow> (Inl e, w)
      | None \<Rightarrow>
          (case (if STORAGE_DIR env \<notin> set (fs w) then os_mkdir env (STORAGE_DIR env) w
                 else (Inr (), w)) of
             (Inl e, w1) \<Rightarrow> (Inl e, w1)
           | (Inr _, w1) \<Rightarrow>
               (let topic = (if legacy_topic st = Some ''cancer/instaDownload''
                             then instaDownload else download)
                in case select_subscriber st of
                     Inl e \<Rightarrow> (Inl e, w1)
                   | Inr subscriber \<Rightarrow> (Inr (subscriber, topic), w1))))"

subsection \<open>The pub/sub module \<^verbatim>\<open>mqtt.py\<close>\<close>

















text \<open>
  \<^verbatim>\<open>on_message\<close>, the function \<^verbatim>\<open>subscribe\<close> registers with the broker library: the payload
  is deserialized and handed to the handler. Nothing is caught, and what the handler
  returns is dropped: the function returns \<^verbatim>\<open>None\<close>. The state \<open>'s\<close> is whatever the
  handler works on.
\<close>

definition on_message ::
  "(string \<Rightarrow> fault + 'm) \<Rightarrow> ('m \<Rightarrow> 's \<Rightarrow> (fault + 'r) \<times> 's) \<Rightarrow> string \<Rightarrow> 's \<Rightarrow> (fault + unit) \<times> 's" where
  "on_message deserialize handle payload s =
     (case deserialize payload of
        Inl e \<Rightarrow> (Inl e, s)
      | Inr message \<Rightarrow>
          (case handle message s of
             (Inl e, s1) \<Rightarrow> (Inl e, s1)
           | (Inr _, s1) \<Rightarrow> (Inr (), s1)))"



subsection \<open>A concrete environment\<close>

text \<open>
  Collaborators for concrete runs. The storage root and the staging chat are the
  defaults. The downloader fails for the URL \<open>bad\<close>, writes two mp4 files for
  \<open>two\<close>, one mp4 file for \<open>mp4\<close> and one webm file for any other URL. ffmpeg fails
  on the webm file of the second sub-directory and converts any other file. An upload answers with a message whose
  file id is the uploaded path.
\<close>

definition demo_env :: env where
  "demo_env =
     \<lparr> environ = (\<lambda>name. None),
       mkdtemp = (\<lambda>t d. Inr ''tmpjob''),
       uuid4 = (\<lambda>t. replicate (Suc t) CHR ''u''),
       mkdir = (\<lambda>t p. None),
       ytdl = (\<lambda>t url tmpl.
          if url = ''bad'' then (Inr 1, [])
          else if url = ''two'' then
            (Inr 0, [take (length tmpl - 29) tmpl @ ''/output1.mp4'',
                     take (length tmpl - 29) tmpl @ ''/output2.mp4''])
          else if url = ''mp4'' then (Inr 0, [take (length tmpl - 29) tmpl @ ''/output1.mp4''])
          else (Inr 0, [take (length tmpl - 29) tmpl @ ''/output1.webm''])),
       ffmpeg = (\<lambda>t i out.
          if i = ''downloads/tmpjob/uuuu/output1.webm'' then (Inr 1, []) else (Inr 0, [out])),
       upload_video = (\<lambda>t chat p. Inr (JObj [(''video'', JObj [(''file_id'', JStr p)])])),
       send_video_group = (\<lambda>t c m vs. None) \<rparr>"

definition demo_world :: world where
  "demo_world = \<lparr> fs = [''downloads''], trace = [] \<rparr>"

definition demo_job :: "string list \<Rightarrow> download_message" where
  "demo_job us = \<lparr> chat_id = 7, message_id = 9, urls = us \<rparr>"



text \<open>A deserializer that knows two payloads and rejects every other one.\<close>

definition demo_deserialize :: "string \<Rightarrow> fault + download_message" where
  "demo_deserialize payload =
     (if payload = ''job [other]'' then Inr (demo_job [''other''])
      else if payload = ''job [bad, other]'' then Inr (demo_job [''bad'', ''other''])
      else Inl (ValueError ''malformed payload''))"

text \<open>A start-up in which only the two configurations vary.\<close>

definition demo_startup :: "fault + string \<Rightarrow> fault + string \<Rightarrow> (string, string) startup" where
  "demo_startup r m =
     \<lparr> telegram_check = None, legacy_topic = None,
       rabbit_config_from_env = r, rabbit_subscriber_init = (\<lambda>config. None),
       mqtt_config_from_env = m, mqtt_subscriber_init = (\<lambda>config. None) \<rparr>"


section \<open>Properties\<close>

subsection \<open>Evaluation of concrete runs\<close>

lemmas world_defs = now_def record_event_def write_paths_def

lemmas pipeline_defs =
  handle_payload_def handle_payload_body_def upload_and_reply_def upload_video_file_def
  ensure_compatibility_def convert_cure_def download_videos_def os_mkdir_def
  temporary_directory_enter_def temporary_directory_exit_def world_defs
  STORAGE_DIR_def UPLOAD_CHAT_def getenv_def os_path_join_def os_listdir_def child_name_def
  splitext_def rfind_def below_dir_def file_id_of_def Let_def

lemmas demo_defs = demo_env_def demo_world_def demo_job_def

lemma demo_world_trace: "trace demo_world = []"
  by (simp add: demo_world_def)

text \<open>The job \<open>[other]\<close>: one file, converted, uploaded and sent.\<close>

lemma demo_run_other:
  "handle_payload demo_env (demo_job [''other'']) demo_world =
     (Inr Ack,
      \<lparr>fs = [''downloads''],
         trace =
           [Mkdtemp ''downloads'' (Inr ''tmpjob''),
            Mkdir ''downloads/tmpjob/uu'' None,
            YtdlDownload ''other''
             ''downloads/tmpjob/uu/output%(autonumber)d.%(ext)s'' (Inr 0)
             [''downloads/tmpjob/uu/output1.webm''],
            Ffmpeg ''downloads/tmpjob/uu/output1.webm''
             ''downloads/tmpjob/uu/output1.mp4'' (Inr 0)
             [''downloads/tmpjob/uu/output1.mp4''],
            UploadVideo ''1259947317'' ''downloads/tmpjob/uu/output1.mp4''
             (Inr (JObj
                    [(''video'',
                      JObj
                       [(''file_id'',
                         JStr ''downloads/tmpjob/uu/output1.mp4'')])])),
            SendVideoGroup 7 9 [JStr ''downloads/tmpjob/uu/output1.mp4''] None,
            Rmtree ''downloads/tmpjob'']\<rparr>)"
  by (simp add: pipeline_defs demo_defs)

text \<open>The job \<open>[bad, other]\<close>: the conversion of the only file fails.\<close>

lemma demo_run_bad_other:
  "handle_payload demo_env (demo_job [''bad'', ''other'']) demo_world =
     (Inl (RuntimeError ''Could not convert file!''),
      \<lparr>fs = [''downloads''],
         trace =
           [Mkdtemp ''downloads'' (Inr ''tmpjob''),
            Mkdir ''downloads/tmpjob/uu'' None,
            YtdlDownload ''bad''
             ''downloads/tmpjob/uu/output%(autonumber)d.%(ext)s'' (Inr 1) [],
            Mkdir ''downloads/tmpjob/uuuu'' None,
            YtdlDownload ''other''
             ''downloads/tmpjob/uuuu/output%(autonumber)d.%(ext)s'' (Inr 0)
             [''downloads/tmpjob/uuuu/output1.webm''],
            Ffmpeg ''downloads/tmpjob/uuuu/output1.webm''
             ''downloads/tmpjob/uuuu/output1.mp4'' (Inr 1) [],
            Rmtree ''downloads/tmpjob'']\<rparr>)"
  by (simp add: pipeline_defs demo_defs)

subsection \<open>The file system only grows inside the \<^verbatim>\<open>with\<close> block\<close>

lemma fs_download_videos:
  "download_videos env b u w = (r, w') \<Longrightarrow> set (fs w) \<subseteq> set (fs w')"
  by (auto simp: download_videos_def os_mkdir_def world_defs Let_def
      split: option.splits prod.splits sum.splits if_splits)

lemma fs_files_of_urls:
  "files_of_urls env b us w = (r, w') \<Longrightarrow> set (fs w) \<subseteq> set (fs w')"
proof (induction us arbitrary: w r w')
  case Nil
  then show ?case by simp
next
  case (Cons u us)
  show ?case
  proof (cases "download_videos env b u w")
    case (Pair r1 w1)
    note dv = fs_download_videos[OF Pair]
    show ?thesis
    proof (cases r1)
      case (Inl e)
      with Cons.prems Pair dv show ?thesis by simp
    next
      case (Inr found)
      obtain r2 w2 where rest: "files_of_urls env b us w1 = (r2, w2)"
        by (cases "files_of_urls env b us w1")
      from Cons.prems Pair Inr rest have "w' = w2" by (auto split: sum.splits)
      with Cons.IH[OF rest] dv show ?thesis by blast
    qed
  qed
qed

lemma fs_upload_video_file:
  "upload_video_file env f w = (r, w') \<Longrightarrow> set (fs w) \<subseteq> set (fs w')"
  by (auto simp: upload_video_file_def ensure_compatibility_def convert_cure_def world_defs Let_def
      split: option.splits prod.splits sum.splits if_splits)

lemma fs_video_ids_of_files:
  "video_ids_of_files env files w = (r, w') \<Longrightarrow> set (fs w) \<subseteq> set (fs w')"
proof (induction files arbitrary: w r w')
  case Nil
  then show ?case by simp
next
  case (Cons f files)
  show ?case
  proof (cases "upload_video_file env f w")
    case (Pair r1 w1)
    note up = fs_upload_video_file[OF Pair]
    show ?thesis
    proof (cases r1)
      case (Inl e)
      with Cons.prems Pair up show ?thesis by simp
    next
      case (Inr h)
      obtain r2 w2 where rest: "video_ids_of_files env files w1 = (r2, w2)"
        by (cases "video_ids_of_files env files w1")
      from Cons.prems Pair Inr rest have "w' = w2" by (auto split: sum.splits)
      with Cons.IH[OF rest] up show ?thesis by blast
    qed
  qed
qed

lemma fs_upload_and_reply:
  "upload_and_reply env payload files w = (r, w') \<Longrightarrow> set (fs w) \<subseteq> set (fs w')"
  by (auto simp: upload_and_reply_def world_defs Let_def
      split: option.splits prod.splits sum.splits dest!: fs_video_ids_of_files)

lemma fs_handle_payload_body:
  "handle_payload_body env payload folder w = (r, w') \<Longrightarrow> set (fs w) \<subseteq> set (fs w')"
  by (auto simp: handle_payload_body_def split: prod.splits sum.splits
      dest!: fs_files_of_urls fs_upload_and_reply)

subsection \<open>C5: the job's directory is removed on every exit path\<close>

text \<open>
  C5. Whatever the handler does, returning \<open>Ack\<close> or raising at any step: when the
  creation of the job's directory succeeded, then after the handler no path of the tree
  rooted at that directory is left (the directory, its per-URL sub-directories and the
  files in them), the removal is the last call the handler makes, and every path outside
  of the tree that was there before is still there. When the creation itself raises, the
  handler raises the same exception and has created nothing.
\<close>

theorem workspace_removed_on_every_exit:
  "case mkdtemp env (now w) (STORAGE_DIR env) of
     Inl e \<Rightarrow>
       handle_payload env payload w =
         (Inl e, record_event (Mkdtemp (STORAGE_DIR env) (Inl e)) w)
   | Inr name \<Rightarrow>
       filter (below_dir (os_path_join (STORAGE_DIR env) name))
         (fs (snd (handle_payload env payload w))) = [] \<and>
       last (trace (snd (handle_payload env payload w))) =
         Rmtree (os_path_join (STORAGE_DIR env) name) \<and>
       set (filter (\<lambda>p. \<not> below_dir (os_path_join (STORAGE_DIR env) name) p) (fs w))
         \<subseteq> set (fs (snd (handle_payload env payload w)))"
proof (cases "mkdtemp env (now w) (STORAGE_DIR env)")
  case (Inl e)
  then show ?thesis
    by (simp add: handle_payload_def temporary_directory_enter_def Let_def)
next
  case (Inr name)
  define folder where "folder = os_path_join (STORAGE_DIR env) name"
  define w1 where
    "w1 = write_paths [folder] (record_event (Mkdtemp (STORAGE_DIR env) (Inr name)) w)"
  obtain r w2 where body: "handle_payload_body env payload folder w1 = (r, w2)"
    by (cases "handle_payload_body env payload folder w1")
  have run: "handle_payload env payload w = (r, temporary_directory_exit folder w2)"
    using Inr body
    by (simp add: handle_payload_def temporary_directory_enter_def Let_def folder_def w1_def)
  have "set (fs w) \<subseteq> set (fs w1)"
    by (auto simp: w1_def world_defs)
  with fs_handle_payload_body[OF body] have grow: "set (fs w) \<subseteq> set (fs w2)"
    by blast
  have gone: "filter (below_dir folder) (fs (temporary_directory_exit folder w2)) = []"
    by (simp add: temporary_directory_exit_def record_event_def filter_empty_conv)
  have last: "last (trace (temporary_directory_exit folder w2)) = Rmtree folder"
    by (simp add: temporary_directory_exit_def record_event_def)
  have frame: "set (filter (\<lambda>p. \<not> below_dir folder p) (fs w))
      \<subseteq> set (fs (temporary_directory_exit folder w2))"
    using grow by (auto simp: temporary_directory_exit_def record_event_def)
  show ?thesis
    using Inr run gone last frame by (simp add: folder_def)
qed

text \<open>
  Two runs: the job \<open>[other]\<close> is converted, uploaded and answered, and returns \<open>Ack\<close>;
  in the job \<open>[bad, other]\<close> the conversion fails and the handler raises. After both the
  storage root is all that is left.
\<close>

theorem workspace_removed_on_every_exit_witness:
  "fst (handle_payload demo_env (demo_job [''other'']) demo_world) = Inr Ack \<and>
   filter (below_dir ''downloads/tmpjob'')
     (fs (snd (handle_payload demo_env (demo_job [''other'']) demo_world))) = [] \<and>
   last (trace (snd (handle_payload demo_env (demo_job [''other'']) demo_world))) =
     Rmtree ''downloads/tmpjob'' \<and>
   fst (handle_payload demo_env (demo_job [''bad'', ''other'']) demo_world) =
     Inl (RuntimeError ''Could not convert file!'') \<and>
   filter (below_dir ''downloads/tmpjob'')
     (fs (snd (handle_payload demo_env (demo_job [''bad'', ''other'']) demo_world))) = [] \<and>
   last (trace (snd (handle_payload demo_env (demo_job [''bad'', ''other'']) demo_world))) =
     Rmtree ''downloads/tmpjob''"
proof -
  have tmp: "mkdtemp demo_env (now demo_world) (STORAGE_DIR demo_env) = Inr ''tmpjob''"
    by (simp add: demo_defs)
  have dir: "os_path_join (STORAGE_DIR demo_env) ''tmpjob'' = ''downloads/tmpjob''"
    by (simp add: demo_defs STORAGE_DIR_def getenv_def os_path_join_def)
  show ?thesis
    using workspace_removed_on_every_exit
        [where env = demo_env and w = demo_world and payload = "demo_job [''other'']"]
      workspace_removed_on_every_exit
        [where env = demo_env and w = demo_world and payload = "demo_job [''bad'', ''other'']"]
    by (simp add: tmp dir demo_run_other demo_run_bad_other)
qed

subsection \<open>C10: the configuration check of the pub/sub module\<close>







subsection \<open>C1: faults in \<^verbatim>\<open>on_message\<close>\<close>

text \<open>
  C1 (as stated: a fault of the handler or of the deserialization is answered with
  \<open>Nack\<close> and never leaves the adapter) does not hold for \<^verbatim>\<open>subscribe\<close> of \<^verbatim>\<open>mqtt.py\<close>. A
  payload the deserializer rejects makes \<^verbatim>\<open>on_message\<close> raise the deserializer's
  exception, and a job whose conversion fails makes it raise the handler's RuntimeError:
  in both runs the exception reaches the caller of \<^verbatim>\<open>on_message\<close>, the broker library.
\<close>

theorem on_message_fault_counterexample:
  "on_message demo_deserialize (handle_payload demo_env) ''garbage'' demo_world =
     (Inl (ValueError ''malformed payload''), demo_world) \<and>
   fst (on_message demo_deserialize (handle_payload demo_env) ''job [bad, other]'' demo_world) =
     Inl (RuntimeError ''Could not convert file!'')"
  by (simp add: on_message_def demo_deserialize_def demo_run_bad_other)

text \<open>
  C1, amended. \<^verbatim>\<open>on_message\<close> raises exactly when the deserialization raises (then the
  handler is not called and the state is unchanged) or the handler raises (then the state
  is as the handler left it), and it raises that same exception; it returns \<^verbatim>\<open>None\<close>
  exactly when the handler returned, whatever the handler returned. No outcome is
  applied to the message by this module.
\<close>

theorem on_message_propagates_faults:
  "(on_message deserialize handle payload s = (Inl e, s') \<longleftrightarrow>
      (deserialize payload = Inl e \<and> s' = s) \<or>
      (\<exists>message. deserialize payload = Inr message \<and> handle message s = (Inl e, s'))) \<and>
   (on_message deserialize handle payload s = (Inr (), s') \<longleftrightarrow>
      (\<exists>message r. deserialize payload = Inr message \<and> handle message s = (Inr r, s')))"
  by (auto simp: on_message_def split: sum.splits prod.splits)

text \<open>The rejected payload raises; the job \<open>[other]\<close> is handled and \<^verbatim>\<open>on_message\<close>
  returns.\<close>

theorem on_message_propagates_faults_witness:
  "on_message demo_deserialize (handle_payload demo_env) ''garbage'' demo_world =
     (Inl (ValueError ''malformed payload''), demo_world) \<and>
   fst (on_message demo_deserialize (handle_payload demo_env) ''job [other]'' demo_world) = Inr ()"
  using on_message_propagates_faults
      [where deserialize = demo_deserialize and handle = "handle_payload demo_env"
         and payload = "''garbage''" and s = demo_world and s' = demo_world
         and e = "ValueError ''malformed payload''"]
  by (simp add: on_message_def demo_deserialize_def demo_run_other)

subsection \<open>C7: the choice of the subscriber at start-up\<close>

lemma construct_rabbit_kind: "construct_rabbit st \<noteq> Inr (MqttSubscriber config)"
  by (simp add: construct_rabbit_def split: sum.splits option.splits)

lemma construct_mqtt_kind: "construct_mqtt st \<noteq> Inr (RabbitSubscriber config)"
  by (simp add: construct_mqtt_def split: sum.splits option.splits)

text \<open>
  C7. A failed validation of a configuration is a ValueError, as in \<^verbatim>\<open>check\<close> of
  \<^verbatim>\<open>mqtt.py\<close>. The Rabbit subscriber is constructed first, and when that succeeds it is
  the subscriber, whatever the MQTT configuration is. When it raises a ValueError, the
  result is that of constructing the MQTT subscriber: the MQTT subscriber, or the
  exception of its construction, which ends the start-up. Any other exception of the
  Rabbit construction ends the start-up at once. So the subscriber is the MQTT one if
  and only if the Rabbit construction raised a ValueError and the MQTT construction
  succeeded. \<^verbatim>\<open>run\<close> subscribes with the selected subscriber, and raises when there is
  none.
\<close>

theorem subscriber_fallback_chain:
  "(\<forall>sub. construct_rabbit st = Inr sub \<longrightarrow> select_subscriber st = Inr sub) \<and>
   (\<forall>msg. construct_rabbit st = Inl (ValueError msg) \<longrightarrow> select_subscriber st = construct_mqtt st) \<and>
   (\<forall>e. construct_rabbit st = Inl e \<longrightarrow> (\<forall>msg. e \<noteq> ValueError msg) \<longrightarrow> select_subscriber st = Inl e) \<and>
   ((\<exists>config. select_subscriber st = Inr (MqttSubscriber config)) \<longleftrightarrow>
      (\<exists>msg. construct_rabbit st = Inl (ValueError msg)) \<and>
      (\<exists>config. construct_mqtt st = Inr (MqttSubscriber config))) \<and>
   (\<forall>sub t w'. run env st w = (Inr (sub, t), w') \<longrightarrow> select_subscriber st = Inr sub) \<and>
   (\<forall>sub. select_subscriber st = Inr sub \<longrightarrow> telegram_check st = None \<longrightarrow>
      STORAGE_DIR env \<in> set (fs w) \<longrightarrow> (\<exists>t. run env st w = (Inr (sub, t), w))) \<and>
   (\<forall>e. select_subscriber st = Inl e \<longrightarrow> (\<exists>e'. fst (run env st w) = Inl e'))"
proof (intro conjI allI impI)
  fix sub assume "construct_rabbit st = Inr sub"
  then show "select_subscriber st = Inr sub" by (simp add: select_subscriber_def)
next
  fix msg assume "construct_rabbit st = Inl (ValueError msg)"
  then show "select_subscriber st = construct_mqtt st" by (simp add: select_subscriber_def)
next
  fix e assume "construct_rabbit st = Inl e" "\<forall>msg. e \<noteq> ValueError msg"
  then show "select_subscriber st = Inl e"
    by (cases e) (simp_all add: select_subscriber_def)
next
  show "(\<exists>config. select_subscriber st = Inr (MqttSubscriber config)) \<longleftrightarrow>
      (\<exists>msg. construct_rabbit st = Inl (ValueError msg)) \<and>
      (\<exists>config. construct_mqtt st = Inr (MqttSubscriber config))"
    using construct_rabbit_kind[of st]
    by (auto simp: select_subscriber_def split: sum.splits fault.splits)
next
  fix sub t w' assume "run env st w = (Inr (sub, t), w')"
  then show "select_subscriber st = Inr sub"
    by (auto simp: run_def Let_def split: option.splits prod.splits sum.splits if_splits)
next
  fix sub
  assume "select_subscriber st = Inr sub" "telegram_check st = None"
    "STORAGE_DIR env \<in> set (fs w)"
  then show "\<exists>t. run env st w = (Inr (sub, t), w)"
    by (simp add: run_def Let_def)
next
  fix e assume "select_subscriber st = Inl e"
  then show "\<exists>e'. fst (run env st w) = Inl e'"
    by (auto simp: run_def Let_def split: option.splits prod.splits sum.splits if_splits)
qed

text \<open>An incomplete Rabbit configuration with a complete MQTT configuration gives the
  MQTT subscriber; a complete Rabbit configuration gives the Rabbit subscriber; two
  incomplete configurations, or a Rabbit failure that is no ValueError, end the start-up.\<close>

theorem subscriber_fallback_chain_witness:
  "construct_rabbit (demo_startup (Inl (ValueError ''RABBITMQ_HOST missing'')) (Inr ''mqtt config'')) =
     Inl (ValueError ''RABBITMQ_HOST missing'') \<and>
   run demo_env (demo_startup (Inl (ValueError ''RABBITMQ_HOST missing'')) (Inr ''mqtt config'')) demo_world =
     (Inr (MqttSubscriber ''mqtt config'', download), demo_world) \<and>
   run demo_env (demo_startup (Inr ''rabbit config'') (Inr ''mqtt config'')) demo_world =
     (Inr (RabbitSubscriber ''rabbit config'', download), demo_world) \<and>
   run demo_env (demo_startup (Inl (ValueError ''RABBITMQ_HOST missing'')) (Inl (ValueError ''MQTT_HOST missing''))) demo_world =
     (Inl (ValueError ''MQTT_HOST missing''), demo_world) \<and>
   run demo_env (demo_startup (Inl (OtherError ''connection refused'')) (Inr ''mqtt config'')) demo_world =
     (Inl (OtherError ''connection refused''), demo_world)"
  using subscriber_fallback_chain
      [where st = "demo_startup (Inl (ValueError ''RABBITMQ_HOST missing'')) (Inr ''mqtt config'')"
         and env = demo_env and w = demo_world]
  by (simp add: run_def select_subscriber_def construct_rabbit_def construct_mqtt_def demo_startup_def
      demo_defs STORAGE_DIR_def getenv_def)


subsection \<open>C6: conversion only for files that are not mp4\<close>

text \<open>What \<^verbatim>\<open>rfind\<close> returns is \<open>-1\<close> or the index of an occurrence, and no occurrence
  comes after it.\<close>

lemma rfind_from_last:
  "r < int i \<Longrightarrow>
     r \<le> rfind_from xs c i r \<and>
     (rfind_from xs c i r = r \<or> int i \<le> rfind_from xs c i r) \<and>
     c \<notin> set (drop (nat (rfind_from xs c i r + 1 - int i)) xs) \<and>
     (int i \<le> rfind_from xs c i r \<longrightarrow>
        nat (rfind_from xs c i r - int i) < length xs \<and> xs ! nat (rfind_from xs c i r - int i) = c)"
proof (induction xs arbitrary: i r)
  case Nil
  then show ?case by simp
next
  case (Cons x xs)
  define r2 where "r2 = (if x = c then int i else r)"
  define R where "R = rfind_from xs c (Suc i) r2"
  have R: "rfind_from (x # xs) c i r = R" by (simp add: R_def r2_def)
  have r2: "r2 < int (Suc i)" "r \<le> r2" using Cons.prems by (auto simp: r2_def)
  from Cons.IH[OF r2(1)] have ih:
    "r2 \<le> R" "c \<notin> set (drop (nat (R + 1 - int (Suc i))) xs)"
    "R = r2 \<or> int (Suc i) \<le> R"
    "int (Suc i) \<le> R \<longrightarrow> nat (R - int (Suc i)) < length xs \<and> xs ! nat (R - int (Suc i)) = c"
    by (simp_all add: R_def)
  have keep: "R = r \<or> int i \<le> R"
    using ih(3) by (auto simp: r2_def split: if_splits)
  show ?case
  proof (cases "int i \<le> R")
    case True
    then have n: "nat (R + 1 - int i) = Suc (nat (R - int i))" by simp
    have idx: "int (Suc i) \<le> R \<Longrightarrow> nat (R - int i) = Suc (nat (R - int (Suc i)))" by simp
    have "nat (R - int i) < length (x # xs) \<and> (x # xs) ! nat (R - int i) = c"
    proof (cases "int (Suc i) \<le> R")
      case True
      with ih(4) idx show ?thesis by simp
    next
      case False
      with \<open>int i \<le> R\<close> have eq: "R = int i" by simp
      with ih(3) have "r2 = int i" by auto
      then have "x = c" using Cons.prems by (auto simp: r2_def split: if_splits)
      with eq show ?thesis by simp
    qed
    moreover have "c \<notin> set (drop (nat (R + 1 - int i)) (x # xs))"
      using ih(2) n True by (simp add: algebra_simps)
    ultimately show ?thesis using R ih(1) r2(2) True keep by simp
  next
    case False
    then have lt: "R < int i" by simp
    with ih(1) have "r2 \<noteq> int i" by auto
    then have xc: "x \<noteq> c" by (auto simp: r2_def)
    from lt have "nat (R + 1 - int (Suc i)) = 0" "nat (R + 1 - int i) = 0" by simp_all
    with ih(2) xc have "c \<notin> set (drop (nat (R + 1 - int i)) (x # xs))" by simp
    then show ?thesis using R ih(1) r2(2) lt keep by simp
  qed
qed

lemma rfind_after: "c \<notin> set (drop (nat (rfind s c + 1)) s)"
  using rfind_from_last[of "-1" 0 s c] by (simp add: rfind_def)

lemma rfind_at: "0 \<le> rfind s c \<Longrightarrow> nat (rfind s c) < length s \<and> s ! nat (rfind s c) = c"
  using rfind_from_last[of "-1" 0 s c] by (simp add: rfind_def)

lemma rfind_ge: "- 1 \<le> rfind s c"
  using rfind_from_last[of "-1" 0 s c] by (simp add: rfind_def)

lemma splitext_append: "splitext p = (base, ext) \<Longrightarrow> base @ ext = p"
  by (auto simp: splitext_def Let_def split: if_splits)

lemma splitext_ext_no_sep: "splitext p = (base, ext) \<Longrightarrow> CHR ''/'' \<notin> set ext"
proof (cases "ext = []")
  case True
  then show ?thesis by simp
next
  case False
  assume sp: "splitext p = (base, ext)"
  with False have gt: "rfind p CHR ''.'' > rfind p CHR ''/''" and ext: "ext = drop (nat (rfind p CHR ''.'')) p"
    by (auto simp: splitext_def Let_def split: if_splits)
  have "nat (rfind p CHR ''/'' + 1) \<le> nat (rfind p CHR ''.'')" using gt by simp
  then have "set (drop (nat (rfind p CHR ''.'')) p) \<subseteq> set (drop (nat (rfind p CHR ''/'' + 1)) p)"
    by (rule set_drop_subset_set_drop)
  with rfind_after[of "CHR ''/''" p] ext show ?thesis by auto
qed

lemma splitext_ext_dot: "splitext p = (base, ext) \<Longrightarrow> ext = [] \<or> hd ext = CHR ''.''"
proof (cases "ext = []")
  case True
  then show ?thesis by simp
next
  case False
  assume sp: "splitext p = (base, ext)"
  with False have gt: "rfind p CHR ''.'' > rfind p CHR ''/''" and ext: "ext = drop (nat (rfind p CHR ''.'')) p"
    by (auto simp: splitext_def Let_def split: if_splits)
  from gt rfind_ge[of p "CHR ''/''"] have "0 \<le> rfind p CHR ''.''" by simp
  from rfind_at[OF this] ext show ?thesis by (simp add: hd_drop_conv_nth)
qed

text \<open>
  C6. A file satisfies the target format when its extension, as \<^verbatim>\<open>os.path.splitext\<close>
  splits it off, is \<open>.mp4\<close>. Such a file goes to the upload as it is and ffmpeg is not
  called: the upload is the only call. For any other file ffmpeg is called once, with
  the file as input and as output the path that has \<open>.mp4\<close> in the place of the
  extension: a path in the same directory (the extension holds no separator) that is not
  the input. When ffmpeg exits with 0, that path is what is uploaded, in the next call;
  otherwise nothing is uploaded and \<^verbatim>\<open>_upload_video\<close> raises.
\<close>

theorem conversion_only_when_needed:
  assumes "splitext file = (base, ext)"
  shows "base @ ext = file \<and> CHR ''/'' \<notin> set ext \<and> (ext = [] \<or> hd ext = CHR ''.'') \<and>
    (if ext = ''.mp4''
     then ensure_compatibility env file w = (Inr file, w) \<and>
          trace (snd (upload_video_file env file w)) =
            trace w @ [UploadVideo (UPLOAD_CHAT env) file
                         (upload_video env (now w) (UPLOAD_CHAT env) file)]
     else base @ ''.mp4'' \<noteq> file \<and>
          trace (snd (ensure_compatibility env file w)) =
            trace w @ [Ffmpeg file (base @ ''.mp4'')
                         (fst (ffmpeg env (now w) file (base @ ''.mp4'')))
                         (snd (ffmpeg env (now w) file (base @ ''.mp4'')))] \<and>
          (if fst (ffmpeg env (now w) file (base @ ''.mp4'')) = Inr 0
           then fst (ensure_compatibility env file w) = Inr (base @ ''.mp4'') \<and>
                trace (snd (upload_video_file env file w)) =
                  trace (snd (ensure_compatibility env file w)) @
                  [UploadVideo (UPLOAD_CHAT env) (base @ ''.mp4'')
                     (upload_video env (Suc (now w)) (UPLOAD_CHAT env) (base @ ''.mp4''))]
           else (\<exists>e. fst (upload_video_file env file w) = Inl e) \<and>
                trace (snd (upload_video_file env file w)) =
                  trace (snd (ensure_compatibility env file w))))"
proof -
  note sp = splitext_append[OF assms] splitext_ext_no_sep[OF assms] splitext_ext_dot[OF assms]
  show ?thesis
  proof (cases "ext = ''.mp4''")
    case True
    with assms sp show ?thesis
      by (simp add: ensure_compatibility_def upload_video_file_def world_defs Let_def
          split: sum.splits)
  next
    case False
    obtain out written where f: "ffmpeg env (now w) file (base @ ''.mp4'') = (out, written)"
      by (cases "ffmpeg env (now w) file (base @ ''.mp4'')")
    have differs: "base @ ''.mp4'' \<noteq> file" using sp(1) False by auto
    show ?thesis
    proof (cases "out = Inr 0")
      case True
      with assms False f sp differs show ?thesis
        by (simp add: ensure_compatibility_def upload_video_file_def convert_cure_def
            world_defs Let_def split: sum.splits)
    next
      case no: False
      with assms False f sp differs show ?thesis
        by (cases out)
          (simp_all add: ensure_compatibility_def upload_video_file_def convert_cure_def
            world_defs Let_def)
    qed
  qed
qed

text \<open>A webm file is converted to its mp4 sibling, which is uploaded; an mp4 file is
  uploaded at once.\<close>

lemma demo_splitext_webm:
  "splitext ''downloads/tmpjob/uu/output1.webm'' = (''downloads/tmpjob/uu/output1'', ''.webm'')"
  by (simp add: splitext_def rfind_def Let_def)

lemma demo_splitext_mp4:
  "splitext ''downloads/tmpjob/uu/output1.mp4'' = (''downloads/tmpjob/uu/output1'', ''.mp4'')"
  by (simp add: splitext_def rfind_def Let_def)

theorem conversion_only_when_needed_witness:
  "splitext ''downloads/tmpjob/uu/output1.webm'' = (''downloads/tmpjob/uu/output1'', ''.webm'') \<and>
   trace (snd (upload_video_file demo_env ''downloads/tmpjob/uu/output1.webm'' demo_world)) =
     [Ffmpeg ''downloads/tmpjob/uu/output1.webm'' ''downloads/tmpjob/uu/output1.mp4'' (Inr 0)
        [''downloads/tmpjob/uu/output1.mp4''],
      UploadVideo ''1259947317'' ''downloads/tmpjob/uu/output1.mp4''
        (Inr (JObj [(''video'', JObj [(''file_id'', JStr ''downloads/tmpjob/uu/output1.mp4'')])]))] \<and>
   splitext ''downloads/tmpjob/uu/output1.mp4'' = (''downloads/tmpjob/uu/output1'', ''.mp4'') \<and>
   trace (snd (upload_video_file demo_env ''downloads/tmpjob/uu/output1.mp4'' demo_world)) =
     [UploadVideo ''1259947317'' ''downloads/tmpjob/uu/output1.mp4''
        (Inr (JObj [(''video'', JObj [(''file_id'', JStr ''downloads/tmpjob/uu/output1.mp4'')])]))]"
  using conversion_only_when_needed [OF demo_splitext_webm, where env = demo_env and w = demo_world]
    conversion_only_when_needed [OF demo_splitext_mp4, where env = demo_env and w = demo_world]
  by (simp add: demo_splitext_webm demo_splitext_mp4 demo_defs UPLOAD_CHAT_def getenv_def now_def)


subsection \<open>The calls of a job\<close>

text \<open>
  What each stage of \<^verbatim>\<open>_handle_payload\<close> adds to the trace: the fetch stage makes no
  upload, no reply and no conversion; an upload goes to the staging chat and gives the
  file id of the path \<^verbatim>\<open>_ensure_compatibility\<close> returned; a failed conversion is the last
  call of its stage and raises RuntimeError; the reply, when it is made, is the last call
  of the body and carries the file ids of the uploads in their order.
\<close>

lemma fetched_simps [simp]:
  "fetched [] = []" "fetched (ev # evs) = fetch_of ev @ fetched evs"
  "fetched (xs @ ys) = fetched xs @ fetched ys"
  by (simp_all add: fetched_def)

lemma uploads_simps [simp]:
  "uploads [] = []" "uploads (ev # evs) = upload_of ev @ uploads evs"
  "uploads (xs @ ys) = uploads xs @ uploads ys"
  by (simp_all add: uploads_def)

lemma sends_simps [simp]:
  "sends [] = []" "sends (ev # evs) = send_of ev @ sends evs"
  "sends (xs @ ys) = sends xs @ sends ys"
  by (simp_all add: sends_def)

lemma handles_simps [simp]:
  "handles [] = []" "handles (ev # evs) = handle_of ev @ handles evs"
  "handles (xs @ ys) = handles xs @ handles ys"
  by (simp_all add: handles_def)

lemma after_failure_append:
  "after_failure (xs @ ys) =
     (case after_failure xs of Some rest \<Rightarrow> Some (rest @ ys) | None \<Rightarrow> after_failure ys)"
  by (induction xs) auto

lemma after_failure_Some:
  "after_failure evs = Some rest \<Longrightarrow>
     \<exists>before ev. evs = before @ ev # rest \<and> failed_conversion ev \<and> after_failure before = None"
proof (induction evs)
  case Nil
  then show ?case by simp
next
  case (Cons a evs)
  show ?case
  proof (cases "failed_conversion a")
    case True
    with Cons.prems have "rest = evs" by simp
    with True show ?thesis by (intro exI[of _ "[]"] exI[of _ a]) simp
  next
    case False
    with Cons.prems have "after_failure evs = Some rest" by simp
    from Cons.IH[OF this] obtain before ev where
      "evs = before @ ev # rest" "failed_conversion ev" "after_failure before = None" by blast
    with False show ?thesis by (intro exI[of _ "a # before"] exI[of _ ev]) simp
  qed
qed

lemma after_failure_None: "after_failure evs = None \<longleftrightarrow> (\<forall>ev \<in> set evs. \<not> failed_conversion ev)"
  by (induction evs) auto

lemma events_since_append: "trace w' = trace w @ evs \<Longrightarrow> events_since w w' = evs"
  by (simp add: events_since_def)

lemma download_videos_trace:
  assumes "download_videos env b u w = (r, w')"
  shows "\<exists>evs. trace w' = trace w @ evs \<and> uploads evs = [] \<and> sends evs = [] \<and>
           handles evs = [] \<and> after_failure evs = None \<and>
           (\<forall>found. r = Inr found \<longrightarrow> fetched evs = [u])"
  using assms
  by (auto simp: download_videos_def os_mkdir_def world_defs Let_def
      split: option.splits prod.splits sum.splits if_splits)

lemma files_per_url_trace:
  "files_per_url env b us w = (r, w') \<Longrightarrow>
     \<exists>evs. trace w' = trace w @ evs \<and> uploads evs = [] \<and> sends evs = [] \<and>
           handles evs = [] \<and> after_failure evs = None \<and>
           (\<forall>groups. r = Inr groups \<longrightarrow> fetched evs = us \<and> length groups = length us)"
proof (induction us arbitrary: w r w')
  case Nil
  then show ?case by auto
next
  case (Cons u us)
  obtain r1 w1 where dv: "download_videos env b u w = (r1, w1)"
    by (cases "download_videos env b u w")
  from download_videos_trace[OF dv] obtain evs1 where e1:
    "trace w1 = trace w @ evs1" "uploads evs1 = []" "sends evs1 = []" "handles evs1 = []"
    "after_failure evs1 = None" "\<forall>found. r1 = Inr found \<longrightarrow> fetched evs1 = [u]"
    by blast
  show ?case
  proof (cases r1)
    case (Inl e)
    with Cons.prems dv have "r = Inl e" "w' = w1" by auto
    with e1 show ?thesis by auto
  next
    case (Inr found)
    obtain r2 w2 where rest: "files_per_url env b us w1 = (r2, w2)"
      by (cases "files_per_url env b us w1")
    from Cons.IH[OF rest] obtain evs2 where e2:
      "trace w2 = trace w1 @ evs2" "uploads evs2 = []" "sends evs2 = []" "handles evs2 = []"
      "after_failure evs2 = None"
      "\<forall>groups. r2 = Inr groups \<longrightarrow> fetched evs2 = us \<and> length groups = length us"
      by blast
    from Cons.prems dv Inr rest have w': "w' = w2"
      and r: "r = (case r2 of Inl e \<Rightarrow> Inl e | Inr others \<Rightarrow> Inr (found # others))"
      by (auto split: sum.splits)
    have "trace w' = trace w @ (evs1 @ evs2)" using e1(1) e2(1) w' by simp
    moreover have "after_failure (evs1 @ evs2) = None"
      using e1(5) e2(5) by (simp add: after_failure_append)
    moreover have "\<forall>groups. r = Inr groups \<longrightarrow>
        fetched (evs1 @ evs2) = u # us \<and> length groups = length (u # us)"
      using r e1(6) e2(6) Inr by (auto split: sum.splits)
    ultimately show ?thesis using e1 e2
      by (intro exI[of _ "evs1 @ evs2"]) simp
  qed
qed

lemma files_of_urls_concat:
  "files_of_urls env b us w =
     (case files_per_url env b us w of
        (Inl e, w') \<Rightarrow> (Inl e, w')
      | (Inr groups, w') \<Rightarrow> (Inr (concat groups), w'))"
  by (induction us arbitrary: w) (auto split: prod.splits sum.splits)

lemma upload_video_file_trace:
  assumes "upload_video_file env f w = (r, w')"
  shows "\<exists>evs. trace w' = trace w @ evs \<and> fetched evs = [] \<and> sends evs = [] \<and>
           (\<forall>x \<in> set (uploads evs). fst x = UPLOAD_CHAT env) \<and>
           (case r of
              Inr file_id \<Rightarrow>
                handles evs = [(cure_path_of f, file_id)] \<and>
                map (\<lambda>x. fst (snd x)) (uploads evs) = [cure_path_of f] \<and>
                after_failure evs = None
            | Inl e \<Rightarrow>
                handles evs = [] \<and>
                (\<forall>rest. after_failure evs = Some rest \<longrightarrow>
                   rest = [] \<and> e = RuntimeError ''Could not convert file!''))"
  using assms
  by (auto simp: upload_video_file_def ensure_compatibility_def convert_cure_def cure_path_of_def
      world_defs Let_def
      split: option.splits prod.splits sum.splits if_splits)

lemma video_ids_of_files_trace:
  "video_ids_of_files env files w = (r, w') \<Longrightarrow>
     \<exists>evs. trace w' = trace w @ evs \<and> fetched evs = [] \<and> sends evs = [] \<and>
           (\<forall>x \<in> set (uploads evs). fst x = UPLOAD_CHAT env) \<and>
           (case r of
              Inr video_ids \<Rightarrow>
                handles evs = zip (map cure_path_of files) video_ids \<and>
                length video_ids = length files \<and>
                map (\<lambda>x. fst (snd x)) (uploads evs) = map cure_path_of files \<and>
                after_failure evs = None
            | Inl e \<Rightarrow>
                (\<forall>rest. after_failure evs = Some rest \<longrightarrow>
                   rest = [] \<and> e = RuntimeError ''Could not convert file!''))"
proof (induction files arbitrary: w r w')
  case Nil
  then show ?case by auto
next
  case (Cons f files)
  obtain r1 w1 where up: "upload_video_file env f w = (r1, w1)"
    by (cases "upload_video_file env f w")
  from upload_video_file_trace[OF up] obtain evs1 where e1:
    "trace w1 = trace w @ evs1" "fetched evs1 = []" "sends evs1 = []"
    "\<forall>x \<in> set (uploads evs1). fst x = UPLOAD_CHAT env"
    and c1: "case r1 of
              Inr file_id \<Rightarrow>
                handles evs1 = [(cure_path_of f, file_id)] \<and>
                map (\<lambda>x. fst (snd x)) (uploads evs1) = [cure_path_of f] \<and>
                after_failure evs1 = None
            | Inl e \<Rightarrow>
                handles evs1 = [] \<and>
                (\<forall>rest. after_failure evs1 = Some rest \<longrightarrow>
                   rest = [] \<and> e = RuntimeError ''Could not convert file!'')"
    by blast
  show ?case
  proof (cases r1)
    case (Inl e)
    with Cons.prems up have "r = Inl e" "w' = w1" by auto
    with e1 c1 Inl show ?thesis by (intro exI[of _ evs1]) simp
  next
    case (Inr file_id)
    obtain r2 w2 where rest: "video_ids_of_files env files w1 = (r2, w2)"
      by (cases "video_ids_of_files env files w1")
    from Cons.IH[OF rest] obtain evs2 where e2:
      "trace w2 = trace w1 @ evs2" "fetched evs2 = []" "sends evs2 = []"
      "\<forall>x \<in> set (uploads evs2). fst x = UPLOAD_CHAT env"
      and c2: "case r2 of
              Inr video_ids \<Rightarrow>
                handles evs2 = zip (map cure_path_of files) video_ids \<and>
                length video_ids = length files \<and>
                map (\<lambda>x. fst (snd x)) (uploads evs2) = map cure_path_of files \<and>
                after_failure evs2 = None
            | Inl e \<Rightarrow>
                (\<forall>rest. after_failure evs2 = Some rest \<longrightarrow>
                   rest = [] \<and> e = RuntimeError ''Could not convert file!'')"
      by blast
    from Cons.prems up Inr rest have w': "w' = w2"
      and r: "r = (case r2 of Inl e \<Rightarrow> Inl e | Inr others \<Rightarrow> Inr (file_id # others))"
      by (auto split: sum.splits)
    from c1 Inr have h1: "handles evs1 = [(cure_path_of f, file_id)]"
      "map (\<lambda>x. fst (snd x)) (uploads evs1) = [cure_path_of f]" "after_failure evs1 = None"
      by simp_all
    have t: "trace w' = trace w @ (evs1 @ evs2)" using e1(1) e2(1) w' by simp
    have u: "\<forall>x \<in> set (uploads (evs1 @ evs2)). fst x = UPLOAD_CHAT env"
      using e1(4) e2(4) by auto
    have c: "case r of
              Inr video_ids \<Rightarrow>
                handles (evs1 @ evs2) = zip (map cure_path_of (f # files)) video_ids \<and>
                length video_ids = length (f # files) \<and>
                map (\<lambda>x. fst (snd x)) (uploads (evs1 @ evs2)) = map cure_path_of (f # files) \<and>
                after_failure (evs1 @ evs2) = None
            | Inl e \<Rightarrow>
                (\<forall>rest. after_failure (evs1 @ evs2) = Some rest \<longrightarrow>
                   rest = [] \<and> e = RuntimeError ''Could not convert file!'')"
    proof (cases r2)
      case (Inl e)
      with r c2 h1 show ?thesis by (simp add: after_failure_append)
    next
      case (Inr others)
      with r c2 h1 show ?thesis by (simp add: after_failure_append)
    qed
    show ?thesis using t u c e1 e2 by (intro exI[of _ "evs1 @ evs2"]) simp
  qed
qed

lemma upload_and_reply_trace:
  assumes "upload_and_reply env payload files w = (r, w')"
  shows "\<exists>evs. trace w' = trace w @ evs \<and> fetched evs = [] \<and>
           (\<forall>x \<in> set (uploads evs). fst x = UPLOAD_CHAT env) \<and>
           (\<forall>rest. after_failure evs = Some rest \<longrightarrow>
              rest = [] \<and> r = Inl (RuntimeError ''Could not convert file!'') \<and> sends evs = []) \<and>
           ((sends evs = [] \<and> (\<exists>e. r = Inl e)) \<or>
            (\<exists>out. sends evs =
                      [(chat_id payload, message_id payload, map snd (handles evs), out)] \<and>
                    r = (case out of None \<Rightarrow> Inr Ack | Some e \<Rightarrow> Inl e) \<and>
                    map fst (handles evs) = map cure_path_of files \<and>
                    map (\<lambda>x. fst (snd x)) (uploads evs) = map cure_path_of files \<and>
                    after_failure evs = None \<and>
                    (\<exists>before. evs = before @ [SendVideoGroup (chat_id payload) (message_id payload)
                        (map snd (handles evs)) out] \<and> sends before = [])))"
proof -
  obtain r1 w1 where ids: "video_ids_of_files env files w = (r1, w1)"
    by (cases "video_ids_of_files env files w")
  from video_ids_of_files_trace[OF ids] obtain evs1 where e1:
    "trace w1 = trace w @ evs1" "fetched evs1 = []" "sends evs1 = []"
    "\<forall>x \<in> set (uploads evs1). fst x = UPLOAD_CHAT env"
    and c1: "case r1 of
              Inr video_ids \<Rightarrow>
                handles evs1 = zip (map cure_path_of files) video_ids \<and>
                length video_ids = length files \<and>
                map (\<lambda>x. fst (snd x)) (uploads evs1) = map cure_path_of files \<and>
                after_failure evs1 = None
            | Inl e \<Rightarrow>
                (\<forall>rest. after_failure evs1 = Some rest \<longrightarrow>
                   rest = [] \<and> e = RuntimeError ''Could not convert file!'')"
    by blast
  show ?thesis
  proof (cases r1)
    case (Inl e)
    with assms ids have "r = Inl e" "w' = w1" by (auto simp: upload_and_reply_def)
    with e1 c1 Inl show ?thesis by (intro exI[of _ evs1]) auto
  next
    case (Inr video_ids)
    define out where
      "out = send_video_group env (now w1) (chat_id payload) (message_id payload) video_ids"
    define ev where
      "ev = SendVideoGroup (chat_id payload) (message_id payload) video_ids out"
    from assms ids Inr have w': "w' = record_event ev w1"
      and r: "r = (case out of None \<Rightarrow> Inr Ack | Some e \<Rightarrow> Inl e)"
      by (auto simp: upload_and_reply_def Let_def out_def ev_def split: option.splits)
    from c1 Inr have h: "handles evs1 = zip (map cure_path_of files) video_ids"
      "length video_ids = length files"
      "map (\<lambda>x. fst (snd x)) (uploads evs1) = map cure_path_of files"
      "after_failure evs1 = None"
      by simp_all
    have hs: "map snd (handles evs1) = video_ids" "map fst (handles evs1) = map cure_path_of files"
      using h(1,2) by simp_all
    define evs where "evs = evs1 @ [ev]"
    have A: "trace w' = trace w @ evs"
      using w' e1(1) by (simp add: record_event_def evs_def)
    have B: "fetched evs = []"
      using e1(2) by (simp add: evs_def ev_def)
    have C: "\<forall>x \<in> set (uploads evs). fst x = UPLOAD_CHAT env"
      using e1(4) by (simp add: evs_def ev_def)
    have none: "after_failure evs = None"
      using h(4) by (simp add: evs_def ev_def after_failure_append)
    then have D: "\<forall>rest. after_failure evs = Some rest \<longrightarrow>
        rest = [] \<and> r = Inl (RuntimeError ''Could not convert file!'') \<and> sends evs = []"
      by simp
    have hv: "handles evs = handles evs1"
      by (simp add: evs_def ev_def)
    have E1: "sends evs = [(chat_id payload, message_id payload, map snd (handles evs), out)]"
      using e1(3) hs(1) by (simp add: evs_def ev_def)
    have E2: "map fst (handles evs) = map cure_path_of files"
      using hs(2) hv by simp
    have E3: "map (\<lambda>x. fst (snd x)) (uploads evs) = map cure_path_of files"
      using h(3) by (simp add: evs_def ev_def)
    have E4: "\<exists>before. evs = before @ [SendVideoGroup (chat_id payload) (message_id payload)
        (map snd (handles evs)) out] \<and> sends before = []"
      using e1(3) hs(1) hv by (intro exI[of _ evs1]) (simp add: evs_def ev_def)
    from r E1 E2 E3 E4 none have E:
      "\<exists>out. sends evs =
                      [(chat_id payload, message_id payload, map snd (handles evs), out)] \<and>
                    r = (case out of None \<Rightarrow> Inr Ack | Some e \<Rightarrow> Inl e) \<and>
                    map fst (handles evs) = map cure_path_of files \<and>
                    map (\<lambda>x. fst (snd x)) (uploads evs) = map cure_path_of files \<and>
                    after_failure evs = None \<and>
                    (\<exists>before. evs = before @ [SendVideoGroup (chat_id payload) (message_id payload)
                        (map snd (handles evs)) out] \<and> sends before = [])"
      by blast
    show ?thesis
      using A B C D E by (intro exI[of _ evs]) blast
  qed
qed

lemma handle_payload_body_trace:
  assumes "handle_payload_body env payload folder w = (r, w')"
  shows "\<exists>evs. trace w' = trace w @ evs \<and>
           (\<forall>x \<in> set (uploads evs). fst x = UPLOAD_CHAT env) \<and>
           (\<forall>rest. after_failure evs = Some rest \<longrightarrow>
              rest = [] \<and> r = Inl (RuntimeError ''Could not convert file!'') \<and> sends evs = []) \<and>
           ((sends evs = [] \<and> (\<exists>e. r = Inl e)) \<or>
            (\<exists>out groups w1.
                files_per_url env folder (urls payload) w = (Inr groups, w1) \<and>
                length groups = length (urls payload) \<and>
                fetched evs = urls payload \<and>
                sends evs = [(chat_id payload, message_id payload, map snd (handles evs), out)] \<and>
                r = (case out of None \<Rightarrow> Inr Ack | Some e \<Rightarrow> Inl e) \<and>
                map fst (handles evs) = map cure_path_of (concat groups) \<and>
                map (\<lambda>x. fst (snd x)) (uploads evs) = map cure_path_of (concat groups) \<and>
                after_failure evs = None \<and>
                (\<exists>before. evs = before @ [SendVideoGroup (chat_id payload) (message_id payload)
                    (map snd (handles evs)) out] \<and> sends before = [])))"
proof -
  obtain r1 w1 where per: "files_per_url env folder (urls payload) w = (r1, w1)"
    by (cases "files_per_url env folder (urls payload) w")
  from files_per_url_trace[OF per] obtain evs1 where e1:
    "trace w1 = trace w @ evs1" "uploads evs1 = []" "sends evs1 = []" "handles evs1 = []"
    "after_failure evs1 = None"
    "\<forall>groups. r1 = Inr groups \<longrightarrow>
        fetched evs1 = urls payload \<and> length groups = length (urls payload)"
    by blast
  show ?thesis
  proof (cases r1)
    case (Inl e)
    with assms per have "r = Inl e" "w' = w1"
      by (auto simp: handle_payload_body_def files_of_urls_concat)
    with e1 show ?thesis by (intro exI[of _ evs1]) simp
  next
    case (Inr groups)
    with assms per have rest: "upload_and_reply env payload (concat groups) w1 = (r, w')"
      by (simp add: handle_payload_body_def files_of_urls_concat)
    from e1(6) Inr have g: "fetched evs1 = urls payload" "length groups = length (urls payload)"
      by simp_all
    from upload_and_reply_trace[OF rest] obtain evs2 where
      t2: "trace w' = trace w1 @ evs2" and f2: "fetched evs2 = []"
      and u2: "\<forall>x \<in> set (uploads evs2). fst x = UPLOAD_CHAT env"
      and a2: "\<forall>rest. after_failure evs2 = Some rest \<longrightarrow>
              rest = [] \<and> r = Inl (RuntimeError ''Could not convert file!'') \<and> sends evs2 = []"
      and d2: "(sends evs2 = [] \<and> (\<exists>e. r = Inl e)) \<or>
            (\<exists>out. sends evs2 =
                      [(chat_id payload, message_id payload, map snd (handles evs2), out)] \<and>
                    r = (case out of None \<Rightarrow> Inr Ack | Some e \<Rightarrow> Inl e) \<and>
                    map fst (handles evs2) = map cure_path_of (concat groups) \<and>
                    map (\<lambda>x. fst (snd x)) (uploads evs2) = map cure_path_of (concat groups) \<and>
                    after_failure evs2 = None \<and>
                    (\<exists>before. evs2 = before @ [SendVideoGroup (chat_id payload) (message_id payload)
                        (map snd (handles evs2)) out] \<and> sends before = []))"
      by blast
    define evs where "evs = evs1 @ evs2"
    have p: "uploads evs = uploads evs2" "sends evs = sends evs2" "handles evs = handles evs2"
      "fetched evs = urls payload" "after_failure evs = after_failure evs2"
      using e1 g f2 by (simp_all add: evs_def after_failure_append)
    have A: "trace w' = trace w @ evs"
      using e1(1) t2 by (simp add: evs_def)
    have C: "\<forall>x \<in> set (uploads evs). fst x = UPLOAD_CHAT env"
      using u2 p by simp
    have D: "\<forall>rest. after_failure evs = Some rest \<longrightarrow>
        rest = [] \<and> r = Inl (RuntimeError ''Could not convert file!'') \<and> sends evs = []"
      using a2 p by simp
    have E: "(sends evs = [] \<and> (\<exists>e. r = Inl e)) \<or>
            (\<exists>out groups w1.
                files_per_url env folder (urls payload) w = (Inr groups, w1) \<and>
                length groups = length (urls payload) \<and>
                fetched evs = urls payload \<and>
                sends evs = [(chat_id payload, message_id payload, map snd (handles evs), out)] \<and>
                r = (case out of None \<Rightarrow> Inr Ack | Some e \<Rightarrow> Inl e) \<and>
                map fst (handles evs) = map cure_path_of (concat groups) \<and>
                map (\<lambda>x. fst (snd x)) (uploads evs) = map cure_path_of (concat groups) \<and>
                after_failure evs = None \<and>
                (\<exists>before. evs = before @ [SendVideoGroup (chat_id payload) (message_id payload)
                    (map snd (handles evs)) out] \<and> sends before = []))"
    proof (rule disjE[OF d2])
      assume "sends evs2 = [] \<and> (\<exists>e. r = Inl e)"
      with p show ?thesis by simp
    next
      assume "\<exists>out. sends evs2 =
                      [(chat_id payload, message_id payload, map snd (handles evs2), out)] \<and>
                    r = (case out of None \<Rightarrow> Inr Ack | Some e \<Rightarrow> Inl e) \<and>
                    map fst (handles evs2) = map cure_path_of (concat groups) \<and>
                    map (\<lambda>x. fst (snd x)) (uploads evs2) = map cure_path_of (concat groups) \<and>
                    after_failure evs2 = None \<and>
                    (\<exists>before. evs2 = before @ [SendVideoGroup (chat_id payload) (message_id payload)
                        (map snd (handles evs2)) out] \<and> sends before = [])"
      then obtain out before where o:
        "sends evs2 = [(chat_id payload, message_id payload, map snd (handles evs2), out)]"
        "r = (case out of None \<Rightarrow> Inr Ack | Some e \<Rightarrow> Inl e)"
        "map fst (handles evs2) = map cure_path_of (concat groups)"
        "map (\<lambda>x. fst (snd x)) (uploads evs2) = map cure_path_of (concat groups)"
        "after_failure evs2 = None"
        "evs2 = before @ [SendVideoGroup (chat_id payload) (message_id payload)
                        (map snd (handles evs2)) out]" "sends before = []"
        by blast
      have b: "evs = (evs1 @ before) @ [SendVideoGroup (chat_id payload) (message_id payload)
                    (map snd (handles evs)) out]" "sends (evs1 @ before) = []"
        using o(6,7) e1(3) p(3) by (simp_all add: evs_def)
      have "files_per_url env folder (urls payload) w = (Inr groups, w1) \<and>
                length groups = length (urls payload) \<and>
                fetched evs = urls payload \<and>
                sends evs = [(chat_id payload, message_id payload, map snd (handles evs), out)] \<and>
                r = (case out of None \<Rightarrow> Inr Ack | Some e \<Rightarrow> Inl e) \<and>
                map fst (handles evs) = map cure_path_of (concat groups) \<and>
                map (\<lambda>x. fst (snd x)) (uploads evs) = map cure_path_of (concat groups) \<and>
                after_failure evs = None \<and>
                (\<exists>before. evs = before @ [SendVideoGroup (chat_id payload) (message_id payload)
                    (map snd (handles evs)) out] \<and> sends before = [])"
        using per Inr g p o(1-5) b by (simp only:) blast
      then show ?thesis by blast
    qed
    show ?thesis using A C D E by (intro exI[of _ evs]) blast
  qed
qed

lemma handle_payload_run:
  assumes "handle_payload env payload w = (r, w')"
  shows "(\<exists>e. mkdtemp env (now w) (STORAGE_DIR env) = Inl e \<and> r = Inl e \<and>
            events_since w w' = [Mkdtemp (STORAGE_DIR env) (Inl e)]) \<or>
         (\<exists>name w0 w1 evs.
            mkdtemp env (now w) (STORAGE_DIR env) = Inr name \<and>
            temporary_directory_enter env (STORAGE_DIR env) w =
              (Inr (os_path_join (STORAGE_DIR env) name), w0) \<and>
            handle_payload_body env payload (os_path_join (STORAGE_DIR env) name) w0 = (r, w1) \<and>
            trace w1 = trace w0 @ evs \<and>
            events_since w w' =
              Mkdtemp (STORAGE_DIR env) (Inr name) # evs @
              [Rmtree (os_path_join (STORAGE_DIR env) name)])"
proof (cases "mkdtemp env (now w) (STORAGE_DIR env)")
  case (Inl e)
  with assms show ?thesis
    by (auto simp: handle_payload_def temporary_directory_enter_def Let_def record_event_def
        events_since_def)
next
  case (Inr name)
  define folder where "folder = os_path_join (STORAGE_DIR env) name"
  define w0 where
    "w0 = write_paths [folder] (record_event (Mkdtemp (STORAGE_DIR env) (Inr name)) w)"
  have enter: "temporary_directory_enter env (STORAGE_DIR env) w = (Inr folder, w0)"
    using Inr by (simp add: temporary_directory_enter_def Let_def folder_def w0_def)
  obtain r1 w1 where body: "handle_payload_body env payload folder w0 = (r1, w1)"
    by (cases "handle_payload_body env payload folder w0")
  from handle_payload_body_trace[OF body] obtain evs where t: "trace w1 = trace w0 @ evs"
    by blast
  from assms enter body have r: "r = r1" and w': "w' = temporary_directory_exit folder w1"
    by (simp_all add: handle_payload_def)
  have "trace w' = trace w @ (Mkdtemp (STORAGE_DIR env) (Inr name) # evs @ [Rmtree folder])"
    using w' t by (simp add: temporary_directory_exit_def w0_def world_defs)
  then have "events_since w w' = Mkdtemp (STORAGE_DIR env) (Inr name) # evs @ [Rmtree folder]"
    by (rule events_since_append)
  with Inr enter body t r show ?thesis
    unfolding folder_def by blast
qed


subsection \<open>C4: a failed conversion aborts the job\<close>

text \<open>
  C4. When a run of the handler holds a call of ffmpeg that ended with a status other
  than 0, the handler raises RuntimeError, that call is the last one before the removal
  of the job's directory (so no upload and no other call follows it), and no grouped
  reply was sent.
\<close>

theorem failed_conversion_aborts_job:
  assumes "handle_payload env payload w = (r, w')"
    and "Ffmpeg src dst (Inr status) written \<in> set (events_since w w')"
    and "status \<noteq> 0"
  shows "r = Inl (RuntimeError ''Could not convert file!'') \<and>
         sends (events_since w w') = [] \<and>
         (\<exists>before folder.
            events_since w w' = before @ [Ffmpeg src dst (Inr status) written, Rmtree folder])"
proof -
  define ev where "ev = Ffmpeg src dst (Inr status) written"
  have bad: "failed_conversion ev" using assms(3) by (simp add: ev_def)
  have mem: "ev \<in> set (events_since w w')" using assms(2) by (simp add: ev_def)
  from handle_payload_run[OF assms(1)] show ?thesis
  proof (elim disjE exE conjE)
    fix e assume "events_since w w' = [Mkdtemp (STORAGE_DIR env) (Inl e)]"
    with mem have False by (simp add: ev_def)
    then show ?thesis ..
  next
    fix name w0 w1 evs
    assume body: "handle_payload_body env payload (os_path_join (STORAGE_DIR env) name) w0 = (r, w1)"
      and t: "trace w1 = trace w0 @ evs"
      and ev: "events_since w w' =
              Mkdtemp (STORAGE_DIR env) (Inr name) # evs @
              [Rmtree (os_path_join (STORAGE_DIR env) name)]"
    from handle_payload_body_trace[OF body] obtain evs' where
      t': "trace w1 = trace w0 @ evs'"
      and a: "\<forall>rest. after_failure evs' = Some rest \<longrightarrow>
              rest = [] \<and> r = Inl (RuntimeError ''Could not convert file!'') \<and> sends evs' = []"
      by blast
    from t t' have same: "evs' = evs" by simp
    from mem ev have in_evs: "ev \<in> set evs" by (auto simp: ev_def)
    with bad have "after_failure evs \<noteq> None" by (auto simp: after_failure_None)
    then obtain rest where ar: "after_failure evs = Some rest" by auto
    with a same have rest: "rest = []" and r: "r = Inl (RuntimeError ''Could not convert file!'')"
      and s: "sends evs = []" by auto
    from after_failure_Some[OF ar] rest obtain before ev' where
      split: "evs = before @ [ev']" "failed_conversion ev'" "after_failure before = None"
      by auto
    from split(3) bad have "ev \<notin> set before" by (auto simp: after_failure_None)
    with in_evs split(1) have "ev' = ev" by auto
    with split(1) ev have "events_since w w' =
        (Mkdtemp (STORAGE_DIR env) (Inr name) # before) @
        [ev, Rmtree (os_path_join (STORAGE_DIR env) name)]" by simp
    moreover have "sends (events_since w w') = []" using ev s by simp
    ultimately show ?thesis using r unfolding ev_def by blast
  qed
qed

text \<open>The job \<open>[two, other, mp4]\<close>: the two files of the first URL are uploaded, the
  conversion of the second URL's file fails, and the file of the third URL is never
  uploaded.\<close>

lemma demo_run_two_other_mp4:
  "handle_payload demo_env (demo_job [''two'', ''other'', ''mp4'']) demo_world =
     (Inl (RuntimeError ''Could not convert file!''),
      \<lparr>fs = [''downloads''],
         trace =
           [Mkdtemp ''downloads'' (Inr ''tmpjob''),
            Mkdir ''downloads/tmpjob/uu'' None,
            YtdlDownload ''two''
             ''downloads/tmpjob/uu/output%(autonumber)d.%(ext)s'' (Inr 0)
             [''downloads/tmpjob/uu/output1.mp4'',
              ''downloads/tmpjob/uu/output2.mp4''],
            Mkdir ''downloads/tmpjob/uuuu'' None,
            YtdlDownload ''other''
             ''downloads/tmpjob/uuuu/output%(autonumber)d.%(ext)s'' (Inr 0)
             [''downloads/tmpjob/uuuu/output1.webm''],
            Mkdir ''downloads/tmpjob/uuuuuu'' None,
            YtdlDownload ''mp4''
             ''downloads/tmpjob/uuuuuu/output%(autonumber)d.%(ext)s'' (Inr 0)
             [''downloads/tmpjob/uuuuuu/output1.mp4''],
            UploadVideo ''1259947317'' ''downloads/tmpjob/uu/output1.mp4''
             (Inr (JObj
                    [(''video'',
                      JObj
                       [(''file_id'',
                         JStr ''downloads/tmpjob/uu/output1.mp4'')])])),
            UploadVideo ''1259947317'' ''downloads/tmpjob/uu/output2.mp4''
             (Inr (JObj
                    [(''video'',
                      JObj
                       [(''file_id'',
                         JStr ''downloads/tmpjob/uu/output2.mp4'')])])),
            Ffmpeg ''downloads/tmpjob/uuuu/output1.webm''
             ''downloads/tmpjob/uuuu/output1.mp4'' (Inr 1) [],
            Rmtree ''downloads/tmpjob'']\<rparr>)"
  by (simp add: pipeline_defs demo_defs)

theorem failed_conversion_aborts_job_witness:
  "Ffmpeg ''downloads/tmpjob/uuuu/output1.webm'' ''downloads/tmpjob/uuuu/output1.mp4'' (Inr 1) []
     \<in> set (events_since demo_world
          (snd (handle_payload demo_env (demo_job [''two'', ''other'', ''mp4'']) demo_world))) \<and>
   fst (handle_payload demo_env (demo_job [''two'', ''other'', ''mp4'']) demo_world) =
     Inl (RuntimeError ''Could not convert file!'') \<and>
   map (\<lambda>x. fst (snd x)) (uploads (events_since demo_world
     (snd (handle_payload demo_env (demo_job [''two'', ''other'', ''mp4'']) demo_world)))) =
     [''downloads/tmpjob/uu/output1.mp4'', ''downloads/tmpjob/uu/output2.mp4''] \<and>
   sends (events_since demo_world
     (snd (handle_payload demo_env (demo_job [''two'', ''other'', ''mp4'']) demo_world))) = []"
proof -
  have mem: "Ffmpeg ''downloads/tmpjob/uuuu/output1.webm'' ''downloads/tmpjob/uuuu/output1.mp4''
      (Inr 1) []
     \<in> set (events_since demo_world
          (snd (handle_payload demo_env (demo_job [''two'', ''other'', ''mp4'']) demo_world)))"
    by (simp add: demo_run_two_other_mp4 events_since_def demo_world_trace)
  have run: "handle_payload demo_env (demo_job [''two'', ''other'', ''mp4'']) demo_world =
      (fst (handle_payload demo_env (demo_job [''two'', ''other'', ''mp4'']) demo_world),
       snd (handle_payload demo_env (demo_job [''two'', ''other'', ''mp4'']) demo_world))"
    by simp
  have ups: "map (\<lambda>x. fst (snd x)) (uploads (events_since demo_world
     (snd (handle_payload demo_env (demo_job [''two'', ''other'', ''mp4'']) demo_world)))) =
     [''downloads/tmpjob/uu/output1.mp4'', ''downloads/tmpjob/uu/output2.mp4'']"
    by (simp add: demo_run_two_other_mp4 events_since_def demo_world_trace)
  from failed_conversion_aborts_job [OF run mem] mem ups show ?thesis
    by simp
qed

subsection \<open>C2: a job whose fetches all fail\<close>






subsection \<open>C3: a failed fetch does not stop the job\<close>


text \<open>
  The error outcome of a download is its return code. An exception of the downloader is
  another matter: nothing in \<^verbatim>\<open>_download_videos\<close> or \<^verbatim>\<open>_handle_payload\<close> catches it, and it
  ends the comprehension and the job.
\<close>

lemma downloader_exception_propagates:
  assumes "mkdir env (now w) (os_path_join folder (uuid4 env (now w))) = None"
    and "fst (ytdl env (Suc (now w)) url
           (os_path_join folder (uuid4 env (now w)) @ ''/output%(autonumber)d.%(ext)s'')) = Inl e"
  shows "fst (files_of_urls env folder (url # rest) w) = Inl e"
  using assms
  by (auto simp: download_videos_def os_mkdir_def world_defs Let_def
      split: prod.splits sum.splits)




subsection \<open>C8: the reply follows the order of the URLs\<close>

lemma split_into_groups:
  "map fst hs = map f (concat groups) \<Longrightarrow>
     \<exists>hgroups. concat hgroups = hs \<and>
       list_all2 (\<lambda>files part. map fst part = map f files) groups hgroups"
proof (induction groups arbitrary: hs)
  case Nil
  then show ?case by simp
next
  case (Cons g groups)
  define n where "n = length g"
  from Cons.prems have len: "length hs = length g + length (concat groups)"
    using length_map[of fst hs] length_map[of f "concat (g # groups)"] by simp
  from Cons.prems have "map fst (take n hs) = map f g" "map fst (drop n hs) = map f (concat groups)"
    by (simp_all add: n_def take_map[symmetric] drop_map[symmetric])
  from Cons.IH[OF this(2)] obtain hgroups where
    h: "concat hgroups = drop n hs" "list_all2 (\<lambda>files part. map fst part = map f files) groups hgroups"
    by blast
  with \<open>map fst (take n hs) = map f g\<close> show ?case
    by (intro exI[of _ "take n hs # hgroups"]) simp
qed

text \<open>
  C8. When the handler returns \<open>Ack\<close>: the downloads were made for the URLs of the job
  in their order; with the files of each URL as \<^verbatim>\<open>_download_videos\<close> returned them, one list
  per URL in the order of the URLs, the uploads were made for these files in that order
  (each as the path \<^verbatim>\<open>_ensure_compatibility\<close> returned for it); and the videos of the one
  reply are the file ids of these uploads, URL after URL: the concatenation, in the order
  of the URLs, of the file ids of each URL's uploads.
\<close>

theorem reply_follows_url_order:
  assumes "handle_payload env payload w = (Inr Ack, w')"
  shows "\<exists>folder w0 groups w1 hgroups.
           temporary_directory_enter env (STORAGE_DIR env) w = (Inr folder, w0) \<and>
           files_per_url env folder (urls payload) w0 = (Inr groups, w1) \<and>
           length groups = length (urls payload) \<and>
           fetched (events_since w w') = urls payload \<and>
           map (\<lambda>x. fst (snd x)) (uploads (events_since w w')) =
             concat (map (map cure_path_of) groups) \<and>
           list_all2 (\<lambda>files part. map fst part = map cure_path_of files) groups hgroups \<and>
           handles (events_since w w') = concat hgroups \<and>
           sends (events_since w w') =
             [(chat_id payload, message_id payload, concat (map (map snd) hgroups), None)]"
proof -
  from handle_payload_run[OF assms] obtain name w0 w1 evs where
    enter: "temporary_directory_enter env (STORAGE_DIR env) w =
              (Inr (os_path_join (STORAGE_DIR env) name), w0)"
    and body: "handle_payload_body env payload (os_path_join (STORAGE_DIR env) name) w0 =
              (Inr Ack, w1)"
    and t: "trace w1 = trace w0 @ evs"
    and ev: "events_since w w' =
              Mkdtemp (STORAGE_DIR env) (Inr name) # evs @
              [Rmtree (os_path_join (STORAGE_DIR env) name)]"
    by auto
  define folder where "folder = os_path_join (STORAGE_DIR env) name"
  from handle_payload_body_trace[OF body] obtain evs' where
    t': "trace w1 = trace w0 @ evs'"
    and d: "(sends evs' = [] \<and> (\<exists>e. (Inr Ack :: fault + result) = Inl e)) \<or>
            (\<exists>out groups w1.
                files_per_url env folder (urls payload) w0 = (Inr groups, w1) \<and>
                length groups = length (urls payload) \<and>
                fetched evs' = urls payload \<and>
                sends evs' = [(chat_id payload, message_id payload, map snd (handles evs'), out)] \<and>
                (Inr Ack :: fault + result) = (case out of None \<Rightarrow> Inr Ack | Some e \<Rightarrow> Inl e) \<and>
                map fst (handles evs') = map cure_path_of (concat groups) \<and>
                map (\<lambda>x. fst (snd x)) (uploads evs') = map cure_path_of (concat groups) \<and>
                after_failure evs' = None \<and>
                (\<exists>before. evs' = before @ [SendVideoGroup (chat_id payload) (message_id payload)
                    (map snd (handles evs')) out] \<and> sends before = []))"
    unfolding folder_def by blast
  from t t' have same: "evs' = evs" by simp
  from d same obtain out groups w2 where
    g: "files_per_url env folder (urls payload) w0 = (Inr groups, w2)"
      "length groups = length (urls payload)"
      "fetched evs = urls payload"
      "sends evs = [(chat_id payload, message_id payload, map snd (handles evs), out)]"
      "(Inr Ack :: fault + result) = (case out of None \<Rightarrow> Inr Ack | Some e \<Rightarrow> Inl e)"
      "map fst (handles evs) = map cure_path_of (concat groups)"
      "map (\<lambda>x. fst (snd x)) (uploads evs) = map cure_path_of (concat groups)"
    by auto
  from g(5) have out: "out = None" by (cases out) simp_all
  from split_into_groups[OF g(6)] obtain hgroups where
    h: "concat hgroups = handles evs"
      "list_all2 (\<lambda>files part. map fst part = map cure_path_of files) groups hgroups"
    by blast
  have p: "fetched (events_since w w') = fetched evs" "uploads (events_since w w') = uploads evs"
    "handles (events_since w w') = handles evs" "sends (events_since w w') = sends evs"
    using ev by simp_all
  have ids: "concat (map (map snd) hgroups) = map snd (handles evs)"
    using h(1) by (simp add: map_concat[symmetric])
  have ups: "map (\<lambda>x. fst (snd x)) (uploads evs) = concat (map (map cure_path_of) groups)"
    using g(7) by (simp add: map_concat)
  show ?thesis
    using enter g(1,2,3) h g(4) out ids ups unfolding p folder_def
    by (intro exI[of _ "os_path_join (STORAGE_DIR env) name"] exI[of _ w0] exI[of _ groups]
        exI[of _ w2] exI[of _ hgroups]) simp
qed

text \<open>The job \<open>[other, two]\<close>: one converted file for the first URL, two files for the
  second.\<close>

lemma demo_run_other_two:
  "handle_payload demo_env (demo_job [''other'', ''two'']) demo_world =
     (Inr Ack,
      \<lparr>fs = [''downloads''],
         trace =
           [Mkdtemp ''downloads'' (Inr ''tmpjob''),
            Mkdir ''downloads/tmpjob/uu'' None,
            YtdlDownload ''other''
             ''downloads/tmpjob/uu/output%(autonumber)d.%(ext)s'' (Inr 0)
             [''downloads/tmpjob/uu/output1.webm''],
            Mkdir ''downloads/tmpjob/uuuu'' None,
            YtdlDownload ''two''
             ''downloads/tmpjob/uuuu/output%(autonumber)d.%(ext)s'' (Inr 0)
             [''downloads/tmpjob/uuuu/output1.mp4'',
              ''downloads/tmpjob/uuuu/output2.mp4''],
            Ffmpeg ''downloads/tmpjob/uu/output1.webm''
             ''downloads/tmpjob/uu/output1.mp4'' (Inr 0)
             [''downloads/tmpjob/uu/output1.mp4''],
            UploadVideo ''1259947317'' ''downloads/tmpjob/uu/output1.mp4''
             (Inr (JObj
                    [(''video'',
                      JObj
                       [(''file_id'',
                         JStr ''downloads/tmpjob/uu/output1.mp4'')])])),
            UploadVideo ''1259947317'' ''downloads/tmpjob/uuuu/output1.mp4''
             (Inr (JObj
                    [(''video'',
                      JObj
                       [(''file_id'',
                         JStr ''downloads/tmpjob/uuuu/output1.mp4'')])])),
            UploadVideo ''1259947317'' ''downloads/tmpjob/uuuu/output2.mp4''
             (Inr (JObj
                    [(''video'',
                      JObj
                       [(''file_id'',
                         JStr ''downloads/tmpjob/uuuu/output2.mp4'')])])),
            SendVideoGroup 7 9
             [JStr ''downloads/tmpjob/uu/output1.mp4'',
              JStr ''downloads/tmpjob/uuuu/output1.mp4'',
              JStr ''downloads/tmpjob/uuuu/output2.mp4'']
             None,
            Rmtree ''downloads/tmpjob'']\<rparr>)"
  by (simp add: pipeline_defs demo_defs)

theorem reply_follows_url_order_witness:
  "fst (handle_payload demo_env (demo_job [''other'', ''two'']) demo_world) = Inr Ack \<and>
   fetched (events_since demo_world
     (snd (handle_payload demo_env (demo_job [''other'', ''two'']) demo_world))) =
     [''other'', ''two''] \<and>
   map (\<lambda>x. fst (snd x)) (uploads (events_since demo_world
     (snd (handle_payload demo_env (demo_job [''other'', ''two'']) demo_world)))) =
     [''downloads/tmpjob/uu/output1.mp4'', ''downloads/tmpjob/uuuu/output1.mp4'',
      ''downloads/tmpjob/uuuu/output2.mp4''] \<and>
   sends (events_since demo_world
     (snd (handle_payload demo_env (demo_job [''other'', ''two'']) demo_world))) =
     [(7, 9, [JStr ''downloads/tmpjob/uu/output1.mp4'', JStr ''downloads/tmpjob/uuuu/output1.mp4'',
              JStr ''downloads/tmpjob/uuuu/output2.mp4''], None)]"
  using reply_follows_url_order [OF demo_run_other_two]
  by (simp add: demo_run_other_two events_since_def demo_world_trace)

subsection \<open>C9: uploads go to the staging chat\<close>

text \<open>The calls of a job other than the reply do not depend on the job's chat and
  message.\<close>

lemma upload_and_reply_other_calls:
  "filter (\<lambda>ev. send_of ev = []) (trace (snd (upload_and_reply env payload files w))) =
   filter (\<lambda>ev. send_of ev = []) (trace (snd (video_ids_of_files env files w)))"
  by (simp add: upload_and_reply_def record_event_def Let_def split: prod.splits sum.splits option.splits)

lemma handle_payload_other_calls:
  "filter (\<lambda>ev. send_of ev = []) (trace (snd (handle_payload env payload w))) =
   filter (\<lambda>ev. send_of ev = [])
     (trace (snd (handle_payload env (payload\<lparr>chat_id := c, message_id := m\<rparr>) w)))"
proof (cases "temporary_directory_enter env (STORAGE_DIR env) w")
  case (Pair r0 w0)
  show ?thesis
  proof (cases r0)
    case (Inl e)
    with Pair show ?thesis by (simp add: handle_payload_def)
  next
    case (Inr folder)
    obtain r1 w1 where f: "files_of_urls env folder (urls payload) w0 = (r1, w1)"
      by (cases "files_of_urls env folder (urls payload) w0")
    have body: "filter (\<lambda>ev. send_of ev = [])
          (trace (snd (handle_payload_body env payload folder w0))) =
        filter (\<lambda>ev. send_of ev = [])
          (trace (snd (handle_payload_body env (payload\<lparr>chat_id := c, message_id := m\<rparr>) folder w0)))"
      using f by (cases r1) (simp_all add: handle_payload_body_def upload_and_reply_other_calls)
    obtain ra wa where a: "handle_payload_body env payload folder w0 = (ra, wa)"
      by (cases "handle_payload_body env payload folder w0")
    obtain rb wb where b:
      "handle_payload_body env (payload\<lparr>chat_id := c, message_id := m\<rparr>) folder w0 = (rb, wb)"
      by (cases "handle_payload_body env (payload\<lparr>chat_id := c, message_id := m\<rparr>) folder w0")
    from Pair Inr body a b show ?thesis
      by (simp add: handle_payload_def temporary_directory_exit_def record_event_def)
  qed
qed

text \<open>
  C9. The staging chat is the value of \<^verbatim>\<open>UPLOAD_CHAT_ID\<close> in the environment, and
  \<open>1259947317\<close> when the variable is not set. Every upload of a job goes to that chat. The
  job's chat and message appear in at most one call, the grouped reply, which carries the
  file ids the uploads returned, and which was made when the handler returns \<open>Ack\<close>. A job
  with another chat and message makes the same calls apart from the reply.
\<close>

theorem uploads_go_to_staging_chat:
  assumes "handle_payload env payload w = (r, w')"
  shows "UPLOAD_CHAT env =
           (case environ env ''UPLOAD_CHAT_ID'' of None \<Rightarrow> ''1259947317'' | Some chat \<Rightarrow> chat) \<and>
         (\<forall>x \<in> set (uploads (events_since w w')). fst x = UPLOAD_CHAT env) \<and>
         (sends (events_since w w') = [] \<or>
          (\<exists>out. sends (events_since w w') =
             [(chat_id payload, message_id payload, map snd (handles (events_since w w')), out)])) \<and>
         (r = Inr Ack \<longrightarrow> sends (events_since w w') \<noteq> []) \<and>
         (\<forall>c m. filter (\<lambda>ev. send_of ev = [])
                  (trace (snd (handle_payload env (payload\<lparr>chat_id := c, message_id := m\<rparr>) w))) =
                filter (\<lambda>ev. send_of ev = []) (trace w'))"
proof -
  have chat: "UPLOAD_CHAT env =
      (case environ env ''UPLOAD_CHAT_ID'' of None \<Rightarrow> ''1259947317'' | Some chat \<Rightarrow> chat)"
    by (simp add: UPLOAD_CHAT_def getenv_def)
  have other: "\<forall>c m. filter (\<lambda>ev. send_of ev = [])
                  (trace (snd (handle_payload env (payload\<lparr>chat_id := c, message_id := m\<rparr>) w))) =
                filter (\<lambda>ev. send_of ev = []) (trace w')"
    using handle_payload_other_calls[of env payload w] assms by simp
  have calls: "(\<forall>x \<in> set (uploads (events_since w w')). fst x = UPLOAD_CHAT env) \<and>
         (sends (events_since w w') = [] \<or>
          (\<exists>out. sends (events_since w w') =
             [(chat_id payload, message_id payload, map snd (handles (events_since w w')), out)])) \<and>
         (r = Inr Ack \<longrightarrow> sends (events_since w w') \<noteq> [])"
    using handle_payload_run[OF assms]
  proof (elim disjE exE conjE)
    fix e assume "r = Inl e" "events_since w w' = [Mkdtemp (STORAGE_DIR env) (Inl e)]"
    then show ?thesis by simp
  next
    fix name w0 w1 evs
    assume body: "handle_payload_body env payload (os_path_join (STORAGE_DIR env) name) w0 = (r, w1)"
      and t: "trace w1 = trace w0 @ evs"
      and ev: "events_since w w' =
              Mkdtemp (STORAGE_DIR env) (Inr name) # evs @
              [Rmtree (os_path_join (STORAGE_DIR env) name)]"
    from handle_payload_body_trace[OF body] obtain evs' where
      t': "trace w1 = trace w0 @ evs'"
      and u: "\<forall>x \<in> set (uploads evs'). fst x = UPLOAD_CHAT env"
      and d: "(sends evs' = [] \<and> (\<exists>e. r = Inl e)) \<or>
            (\<exists>out. sends evs' =
                [(chat_id payload, message_id payload, map snd (handles evs'), out)])"
      by blast
    from t t' have same: "evs' = evs" by simp
    have p: "uploads (events_since w w') = uploads evs"
      "handles (events_since w w') = handles evs" "sends (events_since w w') = sends evs"
      using ev by simp_all
    from u d same show ?thesis unfolding p by auto
  qed
  from chat calls other show ?thesis by blast
qed

text \<open>In the job \<open>[other, two]\<close> the three uploads go to the default staging chat and
  the reply goes to chat 7, message 9.\<close>

theorem uploads_go_to_staging_chat_witness:
  "UPLOAD_CHAT demo_env = ''1259947317'' \<and>
   map fst (uploads (events_since demo_world
     (snd (handle_payload demo_env (demo_job [''other'', ''two'']) demo_world)))) =
     [''1259947317'', ''1259947317'', ''1259947317''] \<and>
   map (\<lambda>x. (fst x, fst (snd x))) (sends (events_since demo_world
     (snd (handle_payload demo_env (demo_job [''other'', ''two'']) demo_world)))) = [(7, 9)]"
proof -
  have chat: "UPLOAD_CHAT demo_env = ''1259947317''"
    by (simp add: UPLOAD_CHAT_def getenv_def demo_env_def)
  have ups: "map fst (uploads (events_since demo_world
     (snd (handle_payload demo_env (demo_job [''other'', ''two'']) demo_world)))) =
     [''1259947317'', ''1259947317'', ''1259947317'']"
    by (simp add: demo_run_other_two events_since_def demo_world_trace)
  have reply: "map (\<lambda>x. (fst x, fst (snd x))) (sends (events_since demo_world
     (snd (handle_payload demo_env (demo_job [''other'', ''two'']) demo_world)))) = [(7, 9)]"
    by (simp add: demo_run_other_two events_since_def demo_world_trace)
  from uploads_go_to_staging_chat [OF demo_run_other_two] chat ups reply show ?thesis
    by blast
qed

end
